theory Spec2Isabelle
  imports Complex_Main
begin

section \<open>Data model of the session and event store\<close>

text \<open>
  The store of \<^verbatim>\<open>src/lib/database.ts\<close>. Dates are milliseconds since the epoch
  (\<^verbatim>\<open>Date.now()\<close>), the three string unions are datatypes, and the two JavaScript
  \<^verbatim>\<open>Map\<close>s are partial functions from the session identifier. The optional
  \<^verbatim>\<open>metadata\<close> record is a list of key and value pairs.
\<close>

datatype session_status = active | completed | terminated

datatype event_type = focus_loss | no_face | multiple_faces | suspicious_object

datatype severity_level = low | medium | high

record ProctoringSession =
  session_id :: string
  candidateName :: string
  startTime :: int
  endTime :: "int option"
  status :: session_status
  totalEvents :: int
  integrityScore :: int

text \<open>\<^verbatim>\<open>Omit<ProctoringEvent, "id" | "sessionId">\<close>: what a caller hands to \<^verbatim>\<open>addEvent\<close>.\<close>

record EventFields =
  etype :: event_type
  timestamp :: int
  description :: string
  severity :: severity_level
  metadata :: "(string \<times> string) list option"

record ProctoringEvent = EventFields +
  event_id :: string
  sessionId :: string

record InMemoryDatabase =
  sessions :: "string \<rightharpoonup> ProctoringSession"
  events :: "string \<rightharpoonup> ProctoringEvent list"

definition empty_db :: InMemoryDatabase where
  "empty_db = \<lparr>sessions = Map.empty, events = Map.empty\<rparr>"

subsection \<open>Rendering numbers in identifiers and descriptions\<close>

text \<open>
  A template literal renders an integer in decimal. The rendering below is JavaScript's
  for every integer of magnitude below \<open>10^21\<close>, which covers clock readings and array
  lengths.
\<close>

definition digit_char :: "nat \<Rightarrow> char" where
  "digit_char d = ''0123456789'' ! d"

function show_nat :: "nat \<Rightarrow> string" where
  "show_nat n = (if n < 10 then [digit_char n] else show_nat (n div 10) @ [digit_char (n mod 10)])"
  by pat_completeness auto
termination
  by (relation "measure (\<lambda>n. n)") auto

declare show_nat.simps [simp del]

definition show_int :: "int \<Rightarrow> string" where
  "show_int i = (if i < 0 then CHR ''-'' # show_nat (nat (- i)) else show_nat (nat i))"

subsection \<open>Sessions\<close>

text \<open>
  \<^verbatim>\<open>createSession\<close> reads the clock twice (once for the identifier, once for
  \<^verbatim>\<open>startTime\<close>) and draws one random suffix; the three are arguments here. \<open>rnd\<close> is
  the value of \<^verbatim>\<open>Math.random().toString(36).substr(2, 9)\<close>.
\<close>

definition new_session_id :: "int \<Rightarrow> string \<Rightarrow> string" where
  "new_session_id now rnd = ''session_'' @ show_int now @ ''_'' @ rnd"

definition createSession ::
  "InMemoryDatabase \<Rightarrow> int \<Rightarrow> string \<Rightarrow> int \<Rightarrow> string \<Rightarrow> ProctoringSession \<times> InMemoryDatabase" where
  "createSession db now rnd start name =
     (let session = \<lparr>session_id = new_session_id now rnd, candidateName = name,
                      startTime = start, endTime = None, status = active,
                      totalEvents = 0, integrityScore = 100\<rparr>
      in (session,
          db\<lparr>sessions := (sessions db)(session_id session \<mapsto> session),
             events := (events db)(session_id session \<mapsto> [])\<rparr>))"

definition getSession :: "InMemoryDatabase \<Rightarrow> string \<Rightarrow> ProctoringSession option" where
  "getSession db sid = sessions db sid"

text \<open>
  \<^verbatim>\<open>Partial<ProctoringSession>\<close>: every field may be absent. The spread
  \<^verbatim>\<open>{ ...session, ...updates }\<close> overwrites exactly the fields that are present.
\<close>

record SessionUpdates =
  u_id :: "string option"
  u_candidateName :: "string option"
  u_startTime :: "int option"
  u_endTime :: "int option"
  u_status :: "session_status option"
  u_totalEvents :: "int option"
  u_integrityScore :: "int option"

definition no_updates :: SessionUpdates where
  "no_updates = \<lparr>u_id = None, u_candidateName = None, u_startTime = None, u_endTime = None,
                  u_status = None, u_totalEvents = None, u_integrityScore = None\<rparr>"

definition spread :: "ProctoringSession \<Rightarrow> SessionUpdates \<Rightarrow> ProctoringSession" where
  "spread session updates =
     \<lparr>session_id = (case u_id updates of None \<Rightarrow> session_id session | Some v \<Rightarrow> v),
      candidateName = (case u_candidateName updates of None \<Rightarrow> candidateName session | Some v \<Rightarrow> v),
      startTime = (case u_startTime updates of None \<Rightarrow> startTime session | Some v \<Rightarrow> v),
      endTime = (case u_endTime updates of None \<Rightarrow> endTime session | Some v \<Rightarrow> Some v),
      status = (case u_status updates of None \<Rightarrow> status session | Some v \<Rightarrow> v),
      totalEvents = (case u_totalEvents updates of None \<Rightarrow> totalEvents session | Some v \<Rightarrow> v),
      integrityScore = (case u_integrityScore updates of None \<Rightarrow> integrityScore session | Some v \<Rightarrow> v)\<rparr>"

definition updateSession ::
  "InMemoryDatabase \<Rightarrow> string \<Rightarrow> SessionUpdates \<Rightarrow> ProctoringSession option \<times> InMemoryDatabase" where
  "updateSession db sid updates =
     (case sessions db sid of
        None \<Rightarrow> (None, db)
      | Some session \<Rightarrow>
          (let updatedSession = spread session updates
           in (Some updatedSession, db\<lparr>sessions := (sessions db)(sid \<mapsto> updatedSession)\<rparr>)))"

subsection \<open>Events\<close>

fun severityWeights :: "severity_level \<Rightarrow> int" where
  "severityWeights low = 2"
| "severityWeights medium = 5"
| "severityWeights high = 10"

definition totalDeductions :: "ProctoringEvent list \<Rightarrow> int" where
  "totalDeductions sessionEvents = foldl (\<lambda>sum evt. sum + severityWeights (severity evt)) 0 sessionEvents"

definition new_event_id :: "int \<Rightarrow> string \<Rightarrow> string" where
  "new_event_id now rnd = ''event_'' @ show_int now @ ''_'' @ rnd"

definition addEvent ::
  "InMemoryDatabase \<Rightarrow> string \<Rightarrow> EventFields \<Rightarrow> int \<Rightarrow> string \<Rightarrow> ProctoringEvent \<times> InMemoryDatabase" where
  "addEvent db sid event now rnd =
     (let fullEvent = \<lparr>etype = etype event, timestamp = timestamp event,
                        description = description event, severity = severity event,
                        metadata = metadata event,
                        event_id = new_event_id now rnd, sessionId = sid\<rparr>;
          sessionEvents = (case events db sid of None \<Rightarrow> [] | Some es \<Rightarrow> es) @ [fullEvent];
          db1 = db\<lparr>events := (events db)(sid \<mapsto> sessionEvents)\<rparr>
      in (case sessions db1 sid of
            None \<Rightarrow> (fullEvent, db1)
          | Some session \<Rightarrow>
              (fullEvent,
               db1\<lparr>sessions := (sessions db1)(sid \<mapsto>
                     session\<lparr>totalEvents := int (length sessionEvents),
                             integrityScore := max 0 (100 - totalDeductions sessionEvents)\<rparr>)\<rparr>)))"

definition getEvents :: "InMemoryDatabase \<Rightarrow> string \<Rightarrow> ProctoringEvent list" where
  "getEvents db sid = (case events db sid of None \<Rightarrow> [] | Some es \<Rightarrow> es)"

text \<open>
  The route hands the raw query string to \<^verbatim>\<open>getEventsByType\<close>
  (\<^verbatim>\<open>type as any\<close>), so the comparison \<^verbatim>\<open>event.type === type\<close> is one of strings.
\<close>

fun type_name :: "event_type \<Rightarrow> string" where
  "type_name focus_loss = ''focus_loss''"
| "type_name no_face = ''no_face''"
| "type_name multiple_faces = ''multiple_faces''"
| "type_name suspicious_object = ''suspicious_object''"

fun severity_name :: "severity_level \<Rightarrow> string" where
  "severity_name low = ''low''"
| "severity_name medium = ''medium''"
| "severity_name high = ''high''"

definition getEventsByType :: "InMemoryDatabase \<Rightarrow> string \<Rightarrow> string \<Rightarrow> ProctoringEvent list" where
  "getEventsByType db sid ty =
     filter (\<lambda>event. type_name (etype event) = ty) (case events db sid of None \<Rightarrow> [] | Some es \<Rightarrow> es)"

subsection \<open>The score as the specification words it\<close>

fun weight :: "severity_level \<Rightarrow> int" where
  "weight low = 2"
| "weight medium = 5"
| "weight high = 10"

definition score :: "ProctoringEvent list \<Rightarrow> int" where
  "score evs = max 0 (100 - (\<Sum>e\<leftarrow>evs. weight (severity e)))"

section \<open>The HTTP routes over the store\<close>

text \<open>
  A handler returns a JSON response: the payload with status 200, or an error message with
  its status code. A body that \<^verbatim>\<open>request.json()\<close> cannot parse makes it throw, and so
  does destructuring the body \<^verbatim>\<open>null\<close>; the handler's \<^verbatim>\<open>catch\<close> turns both into
  status 500. Such a body is \<open>None\<close> here.
\<close>

datatype 'a response = Success 'a | Failure nat string

text \<open>
  A member of a JSON body: absent, \<^verbatim>\<open>null\<close>, a boolean, a number, a string, or an
  array or object (\<open>JCompound\<close>, always truthy and never of type string).
\<close>

datatype json_value = JAbsent | JNull | JBool bool | JNumber int | JString string | JCompound

fun truthy :: "json_value \<Rightarrow> bool" where
  "truthy JAbsent = False"
| "truthy JNull = False"
| "truthy (JBool b) = b"
| "truthy (JNumber n) = (n \<noteq> 0)"
| "truthy (JString s) = (s \<noteq> [])"
| "truthy JCompound = True"

fun typeof_string :: "json_value \<Rightarrow> bool" where
  "typeof_string (JString s) = True"
| "typeof_string v = False"

text \<open>
  \<^verbatim>\<open>String.prototype.trim\<close> on the ASCII white space and line terminators (tab, line
  feed, vertical tab, form feed, carriage return, space).
\<close>

definition is_space :: "char \<Rightarrow> bool" where
  "is_space c = (c \<in> set [CHR 0x09, CHR 0x0A, CHR 0x0B, CHR 0x0C, CHR 0x0D, CHR 0x20])"

definition trim :: "string \<Rightarrow> string" where
  "trim s = rev (dropWhile is_space (rev (dropWhile is_space s)))"

text \<open>\<^verbatim>\<open>POST /api/sessions\<close>: the argument is the \<^verbatim>\<open>candidateName\<close> member of the body.\<close>

definition POST_sessions ::
  "InMemoryDatabase \<Rightarrow> json_value option \<Rightarrow> int \<Rightarrow> string \<Rightarrow> int \<Rightarrow>
     ProctoringSession response \<times> InMemoryDatabase" where
  "POST_sessions db body now rnd start =
     (case body of
        None \<Rightarrow> (Failure 500 ''Failed to create session'', db)
      | Some name_value \<Rightarrow>
          (if \<not> truthy name_value \<or> \<not> typeof_string name_value
           then (Failure 400 ''Candidate name is required'', db)
           else (case name_value of
                   JString s \<Rightarrow>
                     (let (session, db') = createSession db now rnd start (trim s)
                      in (Success session, db'))
                 | _ \<Rightarrow> (Failure 400 ''Candidate name is required'', db))))"

text \<open>\<^verbatim>\<open>GET\<close> and \<^verbatim>\<open>PATCH /api/sessions/[sessionId]\<close>.\<close>

definition GET_session :: "InMemoryDatabase \<Rightarrow> string \<Rightarrow> ProctoringSession response" where
  "GET_session db sid =
     (case getSession db sid of
        None \<Rightarrow> Failure 404 ''Session not found''
      | Some session \<Rightarrow> Success session)"

definition PATCH_session ::
  "InMemoryDatabase \<Rightarrow> string \<Rightarrow> SessionUpdates option \<Rightarrow>
     ProctoringSession response \<times> InMemoryDatabase" where
  "PATCH_session db sid body =
     (case body of
        None \<Rightarrow> (Failure 500 ''Failed to update session'', db)
      | Some updates \<Rightarrow>
          (case updateSession db sid updates of
             (None, db') \<Rightarrow> (Failure 404 ''Session not found'', db')
           | (Some session, db') \<Rightarrow> (Success session, db')))"

text \<open>
  \<^verbatim>\<open>POST /api/events\<close>. The members of the body are JSON strings or absent; a member is
  falsy when it is absent or the empty string.
\<close>

record EventBody =
  b_sessionId :: "string option"
  b_type :: "string option"
  b_description :: "string option"
  b_severity :: "string option"
  b_metadata :: "(string \<times> string) list option"

definition falsy :: "string option \<Rightarrow> bool" where
  "falsy v = (case v of None \<Rightarrow> True | Some s \<Rightarrow> s = [])"

definition validTypes :: "string list" where
  "validTypes = [''focus_loss'', ''no_face'', ''multiple_faces'', ''suspicious_object'']"

definition validSeverities :: "string list" where
  "validSeverities = [''low'', ''medium'', ''high'']"

definition decode_type :: "string \<Rightarrow> event_type option" where
  "decode_type s =
     (if s = ''focus_loss'' then Some focus_loss
      else if s = ''no_face'' then Some no_face
      else if s = ''multiple_faces'' then Some multiple_faces
      else if s = ''suspicious_object'' then Some suspicious_object
      else None)"

definition decode_severity :: "string \<Rightarrow> severity_level option" where
  "decode_severity s =
     (if s = ''low'' then Some low
      else if s = ''medium'' then Some medium
      else if s = ''high'' then Some high
      else None)"

definition POST_events ::
  "InMemoryDatabase \<Rightarrow> EventBody option \<Rightarrow> int \<Rightarrow> string \<Rightarrow> int \<Rightarrow>
     ProctoringEvent response \<times> InMemoryDatabase" where
  "POST_events db body now rnd date =
     (case body of
        None \<Rightarrow> (Failure 500 ''Failed to create event'', db)
      | Some b \<Rightarrow>
          (case (b_sessionId b, b_type b, b_description b) of
             (Some sid, Some ty, Some desc) \<Rightarrow>
               (if sid = [] \<or> ty = [] \<or> desc = []
                then (Failure 400 ''Missing required fields: sessionId, type, description'', db)
                else if ty \<notin> set validTypes then (Failure 400 ''Invalid event type'', db)
                else if \<not> falsy (b_severity b) \<and> (case b_severity b of None \<Rightarrow> False
                                                      | Some sev \<Rightarrow> sev \<notin> set validSeverities)
                then (Failure 400 ''Invalid severity level'', db)
                else (case (decode_type ty,
                            decode_severity (case b_severity b of None \<Rightarrow> ''medium''
                               | Some sev \<Rightarrow> if sev = [] then ''medium'' else sev)) of
                        (Some t, Some sv) \<Rightarrow>
                          (let (event, db') =
                                 addEvent db sid
                                   \<lparr>etype = t, timestamp = date, description = desc,
                                    severity = sv, metadata = b_metadata b\<rparr> now rnd
                           in (Success event, db'))
                      | _ \<Rightarrow> (Failure 400 ''Invalid event type'', db)))
           | _ \<Rightarrow> (Failure 400 ''Missing required fields: sessionId, type, description'', db)))"

text \<open>
  \<^verbatim>\<open>GET /api/events\<close>: \<^verbatim>\<open>searchParams.get\<close> yields a string or \<^verbatim>\<open>null\<close>.
\<close>

definition GET_events ::
  "InMemoryDatabase \<Rightarrow> string option \<Rightarrow> string option \<Rightarrow> ProctoringEvent list response" where
  "GET_events db sessionId_param type_param =
     (case sessionId_param of
        None \<Rightarrow> Failure 400 ''sessionId parameter is required''
      | Some sid \<Rightarrow>
          (if sid = [] then Failure 400 ''sessionId parameter is required''
           else (case type_param of
                   None \<Rightarrow> Success (getEvents db sid)
                 | Some ty \<Rightarrow>
                     (if ty = [] then Success (getEvents db sid)
                      else Success (getEventsByType db sid ty)))))"

section \<open>Sequences of store operations\<close>

datatype store_op =
    CreateSession int string int string
  | AddEvent string EventFields int string
  | UpdateSession string SessionUpdates

fun apply_op :: "InMemoryDatabase \<Rightarrow> store_op \<Rightarrow> InMemoryDatabase" where
  "apply_op db (CreateSession now rnd start name) = snd (createSession db now rnd start name)"
| "apply_op db (AddEvent sid event now rnd) = snd (addEvent db sid event now rnd)"
| "apply_op db (UpdateSession sid updates) = snd (updateSession db sid updates)"

definition run_ops :: "InMemoryDatabase \<Rightarrow> store_op list \<Rightarrow> InMemoryDatabase" where
  "run_ops db ops = foldl apply_op db ops"

text \<open>An operation that does not write the two derived fields of a session directly.\<close>

fun keeps_derived :: "store_op \<Rightarrow> bool" where
  "keeps_derived (UpdateSession sid updates) =
     (u_totalEvents updates = None \<and> u_integrityScore updates = None)"
| "keeps_derived other = True"

text \<open>An operation that appends no event under an identifier without a session.\<close>

fun appends_to_existing :: "InMemoryDatabase \<Rightarrow> store_op \<Rightarrow> bool" where
  "appends_to_existing db (AddEvent sid event now rnd) = (sessions db sid \<noteq> None)"
| "appends_to_existing db other = True"

text \<open>The cache invariant of the session record: both derived fields agree with the ledger.\<close>

definition cache_ok :: "InMemoryDatabase \<Rightarrow> string \<Rightarrow> bool" where
  "cache_ok db sid =
     (case sessions db sid of
        None \<Rightarrow> True
      | Some s \<Rightarrow> integrityScore s = score (getEvents db sid) \<and>
                  totalEvents s = int (length (getEvents db sid)))"

section \<open>The face and gaze debouncer\<close>

text \<open>
  \<^verbatim>\<open>handleFaceDetection\<close> of \<^verbatim>\<open>src/components/video-proctoring.tsx\<close>. The state is the
  \<^verbatim>\<open>faceDetectionStats\<close> object; the clock reading \<^verbatim>\<open>Date.now()\<close> of the tick is an
  argument; every call of the component's \<^verbatim>\<open>addEvent(type, description, severity)\<close> is an
  element of the returned list, in call order. The test
  \<^verbatim>\<open>newStats.lookAwayStartTime && ...\<close> is false for \<^verbatim>\<open>null\<close> and for the number 0.
\<close>

record FaceDetectionResult =
  faceCount :: int
  isLookingAway :: bool
  confidence :: real

record FaceDetectionStats =
  currentFaces :: int
  isLookingAway_s :: bool
  confidence_s :: real
  lastFaceTime :: int
  lookAwayStartTime :: "int option"

type_synonym emitted = "event_type \<times> string \<times> severity_level"

definition handleFaceDetection ::
  "int \<Rightarrow> FaceDetectionResult \<Rightarrow> FaceDetectionStats \<Rightarrow> FaceDetectionStats \<times> emitted list" where
  "handleFaceDetection now result prev =
     (let newStats =
            \<lparr>currentFaces = faceCount result,
             isLookingAway_s = isLookingAway result,
             confidence_s = confidence result,
             lastFaceTime = (if faceCount result > 0 then now else lastFaceTime prev),
             lookAwayStartTime =
               (if isLookingAway result \<and> \<not> isLookingAway_s prev then Some now
                else if \<not> isLookingAway result then None
                else lookAwayStartTime prev)\<rparr>;
          noFace =
            (if faceCount result = 0 \<and> now - lastFaceTime prev > 10000
             then [(no_face, ''No face detected for more than 10 seconds'', high)] else []);
          multiple =
            (if faceCount result > 1
             then [(multiple_faces, show_int (faceCount result) @ '' faces detected in frame'', high)]
             else []);
          away =
            (case lookAwayStartTime newStats of
               None \<Rightarrow> False
             | Some t \<Rightarrow> t \<noteq> 0 \<and> now - t > 5000)
      in if away
         then (newStats\<lparr>lookAwayStartTime := Some now\<rparr>,
               noFace @ multiple @
               [(focus_loss, ''Candidate looked away from screen for more than 5 seconds'', medium)])
         else (newStats, noFace @ multiple))"

text \<open>A run of ticks: the final state and, for each tick, the events it emitted.\<close>

fun run_ticks ::
  "(int \<times> FaceDetectionResult) list \<Rightarrow> FaceDetectionStats \<Rightarrow> FaceDetectionStats \<times> emitted list list" where
  "run_ticks [] s = (s, [])"
| "run_ticks ((now, result) # ticks) s =
     (let (s1, out) = handleFaceDetection now result s;
          (s2, outs) = run_ticks ticks s1
      in (s2, out # outs))"

definition of_type :: "event_type \<Rightarrow> emitted list \<Rightarrow> emitted list" where
  "of_type ty out = filter (\<lambda>e. fst e = ty) out"

definition count_type :: "event_type \<Rightarrow> emitted list list \<Rightarrow> nat" where
  "count_type ty outs = length (of_type ty (concat outs))"

text \<open>Ticks every 1000 ms from \<open>start\<close>, one per detector result.\<close>

fun sampled :: "int \<Rightarrow> FaceDetectionResult list \<Rightarrow> (int \<times> FaceDetectionResult) list" where
  "sampled start [] = []"
| "sampled start (r # rs) = (start, r) # sampled (start + 1000) rs"

section \<open>Session statistics and recommendations\<close>

text \<open>
  \<^verbatim>\<open>getSessionStats\<close> without \<^verbatim>\<open>eventsPerMinute\<close>, a floating-point quotient that no
  recommendation reads. \<^verbatim>\<open>Math.round\<close> of the duration in seconds rounds half up.
\<close>

record EventsByType =
  by_focus_loss :: nat
  by_no_face :: nat
  by_multiple_faces :: nat
  by_suspicious_object :: nat

record EventsBySeverity =
  by_low :: nat
  by_medium :: nat
  by_high :: nat

record SessionStats =
  stats_session :: ProctoringSession
  stats_events :: "ProctoringEvent list"
  eventsByType :: EventsByType
  eventsBySeverity :: EventsBySeverity
  duration :: int

definition getSessionStats :: "InMemoryDatabase \<Rightarrow> string \<Rightarrow> int \<Rightarrow> SessionStats option" where
  "getSessionStats db sid now =
     (let evs = (case events db sid of None \<Rightarrow> [] | Some es \<Rightarrow> es)
      in case sessions db sid of
           None \<Rightarrow> None
         | Some session \<Rightarrow>
             Some \<lparr>stats_session = session,
                   stats_events = evs,
                   eventsByType =
                     \<lparr>by_focus_loss = length (filter (\<lambda>e. etype e = focus_loss) evs),
                      by_no_face = length (filter (\<lambda>e. etype e = no_face) evs),
                      by_multiple_faces = length (filter (\<lambda>e. etype e = multiple_faces) evs),
                      by_suspicious_object = length (filter (\<lambda>e. etype e = suspicious_object) evs)\<rparr>,
                   eventsBySeverity =
                     \<lparr>by_low = length (filter (\<lambda>e. severity e = low) evs),
                      by_medium = length (filter (\<lambda>e. severity e = medium) evs),
                      by_high = length (filter (\<lambda>e. severity e = high) evs)\<rparr>,
                   duration =
                     ((case endTime session of None \<Rightarrow> now - startTime session
                       | Some t \<Rightarrow> t - startTime session) + 500) div 1000\<rparr>)"

text \<open>
  \<^verbatim>\<open>generateRecommendations\<close>, the same text in \<^verbatim>\<open>api/reports/[sessionId]/route.ts\<close> and
  \<^verbatim>\<open>api/reports/batch/route.ts\<close>: each \<^verbatim>\<open>push\<close> appends to the list built so far.
\<close>

definition generateRecommendations :: "SessionStats \<Rightarrow> string list" where
  "generateRecommendations stats =
     (let r0 = [];
          r1 = (if integrityScore (stats_session stats) \<ge> 90
                then r0 @ [''Excellent interview integrity maintained throughout the session.'']
                else if integrityScore (stats_session stats) \<ge> 70
                then r0 @ [''Good overall performance with minor integrity concerns.'']
                else if integrityScore (stats_session stats) \<ge> 50
                then r0 @ [''Moderate integrity issues detected. Review flagged events.'']
                else r0 @ [''Significant integrity concerns. Manual review strongly recommended.'']);
          r2 = (if by_focus_loss (eventsByType stats) > 3
                then r1 @ [''Candidate frequently lost focus. Consider environment assessment.'']
                else r1);
          r3 = (if by_suspicious_object (eventsByType stats) > 0
                then r2 @ [''Suspicious objects detected. Verify candidate workspace setup.'']
                else r2);
          r4 = (if by_multiple_faces (eventsByType stats) > 0
                then r3 @ [''Multiple faces detected. Investigate potential unauthorized assistance.'']
                else r3);
          r5 = (if by_high (eventsBySeverity stats) > 2
                then r4 @ [''Multiple high-severity events recorded. Detailed investigation required.'']
                else r4)
      in r5)"

text \<open>The recommendation rules as the specification words them.\<close>

definition tier_message :: "int \<Rightarrow> string" where
  "tier_message sc =
     (if sc \<ge> 90 then ''Excellent interview integrity maintained throughout the session.''
      else if sc \<ge> 70 then ''Good overall performance with minor integrity concerns.''
      else if sc \<ge> 50 then ''Moderate integrity issues detected. Review flagged events.''
      else ''Significant integrity concerns. Manual review strongly recommended.'')"

definition advisory :: "bool \<Rightarrow> string \<Rightarrow> string list" where
  "advisory fires line = (if fires then [line] else [])"

definition recommend :: "int \<Rightarrow> nat \<Rightarrow> nat \<Rightarrow> nat \<Rightarrow> nat \<Rightarrow> string list" where
  "recommend sc focus objects faces highs =
     tier_message sc #
     advisory (focus > 3) ''Candidate frequently lost focus. Consider environment assessment.'' @
     advisory (objects > 0) ''Suspicious objects detected. Verify candidate workspace setup.'' @
     advisory (faces > 0) ''Multiple faces detected. Investigate potential unauthorized assistance.'' @
     advisory (highs > 2) ''Multiple high-severity events recorded. Detailed investigation required.''"

section \<open>Concrete states and inputs\<close>

definition jane_id :: string where
  "jane_id = ''session_1700000000000_k3x9q2m1z''"

definition jane_db :: InMemoryDatabase where
  "jane_db = snd (createSession empty_db 1700000000000 ''k3x9q2m1z'' 1700000000000 ''Jane Doe'')"

definition jane :: ProctoringSession where
  "jane = \<lparr>session_id = jane_id, candidateName = ''Jane Doe'', startTime = 1700000000000,
            endTime = None, status = active, totalEvents = 0, integrityScore = 100\<rparr>"

definition no_face_fields :: EventFields where
  "no_face_fields =
     \<lparr>etype = no_face, timestamp = 1700000011000,
      description = ''No face detected for more than 10 seconds'',
      severity = high, metadata = None\<rparr>"

text \<open>A request that names a session which was never created, and the event it yields.\<close>

definition ghost_body :: EventBody where
  "ghost_body =
     \<lparr>b_sessionId = Some ''no_such_session'', b_type = Some ''no_face'',
      b_description = Some ''No face detected for more than 10 seconds'',
      b_severity = Some ''high'', b_metadata = None\<rparr>"

definition ghost_event :: ProctoringEvent where
  "ghost_event =
     \<lparr>etype = no_face, timestamp = 1700000011000,
      description = ''No face detected for more than 10 seconds'',
      severity = high, metadata = None,
      event_id = ''event_1700000011002_p0o9i8u7y'', sessionId = ''no_such_session''\<rparr>"

text \<open>
  The session of Jane Doe after the client's \<^verbatim>\<open>endSession\<close> request
  (\<^verbatim>\<open>{ endTime, status: "completed" }\<close>), and two later updates.
\<close>

definition end_updates :: SessionUpdates where
  "end_updates = no_updates\<lparr>u_endTime := Some 1700000600000, u_status := Some completed\<rparr>"

definition completed_db :: InMemoryDatabase where
  "completed_db = snd (updateSession jane_db jane_id end_updates)"

definition terminate_updates :: SessionUpdates where
  "terminate_updates = no_updates\<lparr>u_status := Some terminated\<rparr>"

definition score_updates :: SessionUpdates where
  "score_updates = no_updates\<lparr>u_totalEvents := Some 42, u_integrityScore := Some 7\<rparr>"

definition jane_ops :: "store_op list" where
  "jane_ops =
     [CreateSession 1700000000000 ''k3x9q2m1z'' 1700000000000 ''Jane Doe'',
      AddEvent jane_id no_face_fields 1700000011002 ''p0o9i8u7y'',
      UpdateSession jane_id end_updates]"

text \<open>The store after one event was posted under an identifier that names no session.\<close>

definition ghost_db :: InMemoryDatabase where
  "ghost_db = snd (addEvent empty_db ''no_such_session'' no_face_fields 1700000011002 ''p0o9i8u7y'')"

text \<open>The statistics of Jane Doe's session before any event.\<close>

definition jane_stats :: SessionStats where
  "jane_stats =
     \<lparr>stats_session = jane, stats_events = [],
      eventsByType = \<lparr>by_focus_loss = 0, by_no_face = 0, by_multiple_faces = 0,
                      by_suspicious_object = 0\<rparr>,
      eventsBySeverity = \<lparr>by_low = 0, by_medium = 0, by_high = 0\<rparr>,
      duration = 600\<rparr>"

text \<open>
  The debouncer's state when the component mounts at clock reading \<open>t\<close>
  (\<^verbatim>\<open>lastFaceTime: Date.now()\<close>), and four detector results.
\<close>

definition initial_stats :: "int \<Rightarrow> FaceDetectionStats" where
  "initial_stats t =
     \<lparr>currentFaces = 0, isLookingAway_s = False, confidence_s = 0,
      lastFaceTime = t, lookAwayStartTime = None\<rparr>"

definition looking_away :: FaceDetectionResult where
  "looking_away = \<lparr>faceCount = 1, isLookingAway = True, confidence = 0.8\<rparr>"

definition one_face :: FaceDetectionResult where
  "one_face = \<lparr>faceCount = 1, isLookingAway = False, confidence = 0.8\<rparr>"

definition three_faces :: FaceDetectionResult where
  "three_faces = \<lparr>faceCount = 3, isLookingAway = False, confidence = 0.8\<rparr>"

definition nobody :: FaceDetectionResult where
  "nobody = \<lparr>faceCount = 0, isLookingAway = False, confidence = 0\<rparr>"

section \<open>Properties of the store\<close>

lemma weight_severityWeights: "severityWeights s = weight s"
  by (cases s) simp_all

lemma foldl_deductions:
  "foldl (\<lambda>sum evt. sum + severityWeights (severity evt)) a evs = a + (\<Sum>e\<leftarrow>evs. weight (severity e))"
  by (induction evs arbitrary: a) (simp_all add: weight_severityWeights)

lemma totalDeductions_sum: "totalDeductions evs = (\<Sum>e\<leftarrow>evs. weight (severity e))"
  by (simp add: totalDeductions_def foldl_deductions)

lemma weight_nonneg: "0 \<le> weight s"
  by (cases s) simp_all

lemma score_range: "0 \<le> score evs \<and> score evs \<le> 100"
proof -
  have "0 \<le> (\<Sum>e\<leftarrow>evs. weight (severity e))"
    by (rule sum_list_nonneg) (auto simp: weight_nonneg)
  then show ?thesis by (simp add: score_def)
qed

subsection \<open>Number rendering and the concrete session\<close>

lemma show_nat_small: "n < 10 \<Longrightarrow> show_nat n = [digit_char n]"
  by (simp add: show_nat.simps)

lemma show_nat_step: "\<not> n < 10 \<Longrightarrow> show_nat n = show_nat (n div 10) @ [digit_char (n mod 10)]"
  by (subst show_nat.simps) simp

lemma jane_id_eq: "new_session_id 1700000000000 ''k3x9q2m1z'' = jane_id"
  by (simp add: new_session_id_def jane_id_def show_int_def show_nat.simps digit_char_def)

lemma jane_db_eq: "jane_db = \<lparr>sessions = [jane_id \<mapsto> jane], events = [jane_id \<mapsto> []]\<rparr>"
  by (simp add: jane_db_def createSession_def Let_def empty_db_def jane_id_eq jane_def)

subsection \<open>What \<^verbatim>\<open>addEvent\<close> stores\<close>

lemma getEvents_addEvent:
  "getEvents (snd (addEvent db sid event now rnd)) sid = getEvents db sid @ [fst (addEvent db sid event now rnd)]"
  by (simp add: addEvent_def getEvents_def Let_def split: option.splits)

lemma sessions_addEvent_same:
  "sessions (snd (addEvent db sid event now rnd)) sid =
     map_option (\<lambda>s. s\<lparr>totalEvents := int (length (getEvents db sid)) + 1,
                        integrityScore := score (getEvents db sid @ [fst (addEvent db sid event now rnd)])\<rparr>)
       (sessions db sid)"
  by (simp add: addEvent_def getEvents_def Let_def score_def totalDeductions_sum split: option.splits)

lemma fst_addEvent:
  "fst (addEvent db sid event now rnd) =
     \<lparr>etype = etype event, timestamp = timestamp event, description = description event,
      severity = severity event, metadata = metadata event,
      event_id = new_event_id now rnd, sessionId = sid\<rparr>"
  by (simp add: addEvent_def Let_def split: option.splits)

text \<open>
  Claim C1. When an event is appended to an existing session, the integrity score stored
  on the session is \<open>max 0 (100 - d)\<close>, where \<open>d\<close> is the sum of the severity weights
  (low 2, medium 5, high 10) over all events of the session, the new one included; it is
  an integer between 0 and 100.
\<close>

theorem addEvent_integrityScore:
  assumes "sessions db sid = Some s"
  shows "\<exists>s'. sessions (snd (addEvent db sid event now rnd)) sid = Some s'
           \<and> integrityScore s' =
               max 0 (100 - (\<Sum>e\<leftarrow>getEvents (snd (addEvent db sid event now rnd)) sid. weight (severity e)))
           \<and> 0 \<le> integrityScore s' \<and> integrityScore s' \<le> 100
           \<and> getEvents (snd (addEvent db sid event now rnd)) sid =
               getEvents db sid @ [fst (addEvent db sid event now rnd)]
           \<and> weight low = 2 \<and> weight medium = 5 \<and> weight high = 10"
proof -
  define db' where "db' = snd (addEvent db sid event now rnd)"
  define e where "e = fst (addEvent db sid event now rnd)"
  define s' where "s' = s\<lparr>totalEvents := int (length (getEvents db sid)) + 1,
                            integrityScore := score (getEvents db' sid)\<rparr>"
  have ev: "getEvents db' sid = getEvents db sid @ [e]"
    unfolding db'_def e_def by (rule getEvents_addEvent)
  have "sessions db' sid = Some (s\<lparr>totalEvents := int (length (getEvents db sid)) + 1,
       integrityScore := score (getEvents db sid @ [e])\<rparr>)"
    unfolding db'_def e_def using assms by (simp only: sessions_addEvent_same option.map)
  then have se: "sessions db' sid = Some s'"
    by (simp only: ev s'_def)
  have sc: "integrityScore s' = score (getEvents db' sid)"
    by (simp add: s'_def)
  have A: "integrityScore s' = max 0 (100 - (\<Sum>e\<leftarrow>getEvents db' sid. weight (severity e)))"
    by (simp add: sc score_def)
  have B: "0 \<le> integrityScore s' \<and> integrityScore s' \<le> 100"
    unfolding sc by (rule score_range)
  have "sessions db' sid = Some s'
           \<and> integrityScore s' = max 0 (100 - (\<Sum>e\<leftarrow>getEvents db' sid. weight (severity e)))
           \<and> 0 \<le> integrityScore s' \<and> integrityScore s' \<le> 100
           \<and> getEvents db' sid = getEvents db sid @ [e]
           \<and> weight low = 2 \<and> weight medium = 5 \<and> weight high = 10"
    using se A B ev by simp
  then show ?thesis
    unfolding db'_def e_def by (rule exI)
qed

theorem addEvent_integrityScore_witness:
  "sessions jane_db jane_id = Some jane
   \<and> map_option integrityScore
        (sessions (snd (addEvent jane_db jane_id no_face_fields 1700000011002 ''p0o9i8u7y'')) jane_id) = Some 90"
proof -
  have h: "sessions jane_db jane_id = Some jane"
    by (simp add: jane_db_eq)
  have g: "getEvents jane_db jane_id = []"
    by (simp add: jane_db_eq getEvents_def)
  from addEvent_integrityScore [OF h, of no_face_fields 1700000011002 "''p0o9i8u7y''"]
  show ?thesis
    using h by (auto simp add: g fst_addEvent no_face_fields_def)
qed

subsection \<open>Identifiers determine the clock reading and the random suffix\<close>

lemma digit_char_inj:
  assumes "d < 10" "d' < 10" "digit_char d = digit_char d'"
  shows "d = d'"
proof -
  have "distinct ''0123456789''" by simp
  moreover have "d < length ''0123456789''" "d' < length ''0123456789''"
    using assms by simp_all
  ultimately show ?thesis
    using assms(3) unfolding digit_char_def by (simp only: nth_eq_iff_index_eq)
qed

lemma digit_char_mem: "d < 10 \<Longrightarrow> digit_char d \<in> set ''0123456789''"
  unfolding digit_char_def by (rule nth_mem) simp

lemma show_nat_chars: "set (show_nat n) \<subseteq> set ''0123456789''"
proof (induction n rule: show_nat.induct)
  case (1 n)
  show ?case
  proof (cases "n < 10")
    case True
    then show ?thesis
      using digit_char_mem [of n] by (simp add: show_nat_small)
  next
    case False
    have "n mod 10 < 10" by simp
    then have "digit_char (n mod 10) \<in> set ''0123456789''"
      by (rule digit_char_mem)
    with False "1.IH" show ?thesis
      by (simp add: show_nat_step)
  qed
qed

lemma show_nat_nonempty: "show_nat n \<noteq> []"
  by (cases "n < 10") (simp_all add: show_nat_small show_nat_step)

lemma show_nat_inj: "show_nat n = show_nat m \<Longrightarrow> n = m"
proof (induction n arbitrary: m rule: show_nat.induct)
  case (1 n)
  show ?case
  proof (cases "n < 10")
    case n_small: True
    show ?thesis
    proof (cases "m < 10")
      case True
      with n_small "1.prems" show ?thesis
        by (simp add: show_nat_small digit_char_inj)
    next
      case False
      with n_small "1.prems" show_nat_nonempty [of "m div 10"] show ?thesis
        by (simp add: show_nat_small show_nat_step)
    qed
  next
    case n_big: False
    show ?thesis
    proof (cases "m < 10")
      case True
      with n_big "1.prems" show_nat_nonempty [of "n div 10"] show ?thesis
        by (simp add: show_nat_small show_nat_step)
    next
      case False
      with n_big "1.prems"
      have eq: "show_nat (n div 10) = show_nat (m div 10)"
        and dg: "digit_char (n mod 10) = digit_char (m mod 10)"
        by (simp_all add: show_nat_step)
      from "1.IH" [OF n_big eq] have "n div 10 = m div 10" .
      moreover from dg have "n mod 10 = m mod 10"
        by (intro digit_char_inj) simp_all
      ultimately show ?thesis
        by (metis div_mult_mod_eq)
    qed
  qed
qed

lemma show_int_chars: "set (show_int i) \<subseteq> set ''-0123456789''"
proof -
  have digits: "set (show_nat k) \<subseteq> set ''-0123456789''" for k
  proof -
    have "set ''0123456789'' \<subseteq> set ''-0123456789''"
      by (simp only: list.set) (rule subset_insertI)
    with show_nat_chars [of k] show ?thesis
      by (rule subset_trans)
  qed
  show ?thesis
  proof (cases "i < 0")
    case True
    have "CHR ''-'' \<in> set ''-0123456789''"
      by simp
    with True digits [of "nat (- i)"] show ?thesis
      by (simp only: show_int_def if_True list.set(2) insert_subset simp_thms)
  next
    case False
    with digits [of "nat i"] show ?thesis
      by (simp only: show_int_def if_False)
  qed
qed

lemma show_int_inj: "show_int i = show_int j \<Longrightarrow> i = j"
proof -
  assume eq: "show_int i = show_int j"
  have no_minus: "\<And>n. hd (show_nat n) \<noteq> CHR ''-''"
  proof -
    fix n
    have "hd (show_nat n) \<in> set (show_nat n)"
      using show_nat_nonempty by simp
    with show_nat_chars [of n] show "hd (show_nat n) \<noteq> CHR ''-''" by auto
  qed
  consider "i < 0" "j < 0" | "i < 0" "\<not> j < 0" | "\<not> i < 0" "j < 0" | "\<not> i < 0" "\<not> j < 0"
    by blast
  then show ?thesis
  proof cases
    case 1
    with eq have "show_nat (nat (- i)) = show_nat (nat (- j))"
      by (simp add: show_int_def)
    then have "nat (- i) = nat (- j)" by (rule show_nat_inj)
    with 1 show ?thesis by simp
  next
    case 2
    with eq have "CHR ''-'' # show_nat (nat (- i)) = show_nat (nat j)"
      by (simp add: show_int_def)
    then have "hd (show_nat (nat j)) = CHR ''-''"
      by (metis list.sel(1))
    with no_minus show ?thesis by blast
  next
    case 3
    with eq have "CHR ''-'' # show_nat (nat (- j)) = show_nat (nat i)"
      by (simp add: show_int_def)
    then have "hd (show_nat (nat i)) = CHR ''-''"
      by (metis list.sel(1))
    with no_minus show ?thesis by blast
  next
    case 4
    with eq have "show_nat (nat i) = show_nat (nat j)"
      by (simp add: show_int_def)
    then have "nat i = nat j" by (rule show_nat_inj)
    with 4 show ?thesis by simp
  qed
qed

lemma split_at_separator:
  assumes "x \<notin> set a" "x \<notin> set b" "a @ x # r = b @ x # r'"
  shows "a = b \<and> r = r'"
proof -
  have "takeWhile (\<lambda>c. c \<noteq> x) (a @ x # r) = a" "takeWhile (\<lambda>c. c \<noteq> x) (b @ x # r') = b"
    using assms(1,2) by (auto simp add: takeWhile_tail)
  with assms(3) have "a = b" by simp
  with assms(3) show ?thesis by simp
qed

lemma new_event_id_inj:
  assumes "new_event_id now rnd = new_event_id now' rnd'"
  shows "now = now' \<and> rnd = rnd'"
proof -
  have u: "CHR ''_'' \<notin> set (show_int now)" "CHR ''_'' \<notin> set (show_int now')"
    using show_int_chars [of now] show_int_chars [of now'] by auto
  from assms have "show_int now @ CHR ''_'' # rnd = show_int now' @ CHR ''_'' # rnd'"
    by (simp add: new_event_id_def)
  with u have "show_int now = show_int now' \<and> rnd = rnd'"
    by (intro split_at_separator)
  then show ?thesis
    by (simp add: show_int_inj)
qed

subsection \<open>Appending to any session identifier\<close>

lemma event_id_eq: "new_event_id 1700000011002 ''p0o9i8u7y'' = ''event_1700000011002_p0o9i8u7y''"
  by (simp add: new_event_id_def show_int_def show_nat.simps digit_char_def)

lemma addEvent_other:
  "other \<noteq> sid \<Longrightarrow>
     getEvents (snd (addEvent db sid event now rnd)) other = getEvents db other \<and>
     sessions (snd (addEvent db sid event now rnd)) other = sessions db other"
  by (simp add: addEvent_def getEvents_def Let_def split: option.splits)

lemma addEvent_no_session:
  "sessions db sid = None \<Longrightarrow> sessions (snd (addEvent db sid event now rnd)) = sessions db"
  by (simp add: addEvent_def Let_def)

lemma decode_type_name: "decode_type (type_name t) = Some t"
  by (cases t) (simp_all add: decode_type_def)

lemma decode_severity_name: "decode_severity (severity_name sv) = Some sv"
  by (cases sv) (simp_all add: decode_severity_def)

lemma type_name_valid: "type_name t \<in> set validTypes \<and> type_name t \<noteq> []"
  by (cases t) (simp_all add: validTypes_def)

lemma severity_name_valid: "severity_name sv \<in> set validSeverities \<and> severity_name sv \<noteq> []"
  by (cases sv) (simp_all add: validSeverities_def)

lemma POST_events_valid:
  assumes "sid \<noteq> []" "desc \<noteq> []"
  shows "POST_events db
           (Some \<lparr>b_sessionId = Some sid, b_type = Some (type_name t), b_description = Some desc,
                  b_severity = Some (severity_name sv), b_metadata = md\<rparr>) now rnd date =
         (Success (fst (addEvent db sid
                     \<lparr>etype = t, timestamp = date, description = desc, severity = sv,
                      metadata = md\<rparr> now rnd)),
          snd (addEvent db sid
                 \<lparr>etype = t, timestamp = date, description = desc, severity = sv,
                  metadata = md\<rparr> now rnd))"
  using assms
  by (simp add: POST_events_def falsy_def type_name_valid severity_name_valid
      decode_type_name decode_severity_name split_beta)

text \<open>
  Claim C2 fails as stated: appending to a session identifier that names no session does
  not fail. On the empty store, the request \<open>ghost_body\<close> is answered with status 200
  and the new event, and the event is stored under the unknown identifier.
\<close>

theorem addEvent_unknown_session_succeeds:
  "sessions empty_db ''no_such_session'' = None
   \<and> addEvent empty_db ''no_such_session'' no_face_fields 1700000011002 ''p0o9i8u7y'' =
       (ghost_event,
        \<lparr>sessions = Map.empty, events = [''no_such_session'' \<mapsto> [ghost_event]]\<rparr>)
   \<and> POST_events empty_db (Some ghost_body) 1700000011002 ''p0o9i8u7y'' 1700000011000 =
       (Success ghost_event,
        \<lparr>sessions = Map.empty, events = [''no_such_session'' \<mapsto> [ghost_event]]\<rparr>)"
proof -
  have a: "addEvent empty_db ''no_such_session'' no_face_fields 1700000011002 ''p0o9i8u7y'' =
       (ghost_event,
        \<lparr>sessions = Map.empty, events = [''no_such_session'' \<mapsto> [ghost_event]]\<rparr>)"
    by (simp add: addEvent_def Let_def empty_db_def no_face_fields_def ghost_event_def event_id_eq)
  have "POST_events empty_db
      (Some \<lparr>b_sessionId = Some ''no_such_session'', b_type = Some (type_name no_face),
             b_description = Some ''No face detected for more than 10 seconds'',
             b_severity = Some (severity_name high), b_metadata = None\<rparr>)
      1700000011002 ''p0o9i8u7y'' 1700000011000 =
      (Success (fst (addEvent empty_db ''no_such_session''
          \<lparr>etype = no_face, timestamp = 1700000011000,
           description = ''No face detected for more than 10 seconds'',
           severity = high, metadata = None\<rparr> 1700000011002 ''p0o9i8u7y'')),
       snd (addEvent empty_db ''no_such_session''
          \<lparr>etype = no_face, timestamp = 1700000011000,
           description = ''No face detected for more than 10 seconds'',
           severity = high, metadata = None\<rparr> 1700000011002 ''p0o9i8u7y''))"
    by (rule POST_events_valid) simp_all
  with a have "POST_events empty_db (Some ghost_body) 1700000011002 ''p0o9i8u7y'' 1700000011000 =
       (Success ghost_event,
        \<lparr>sessions = Map.empty, events = [''no_such_session'' \<mapsto> [ghost_event]]\<rparr>)"
    by (simp add: ghost_body_def no_face_fields_def)
  with a show ?thesis
    by (simp add: empty_db_def)
qed

text \<open>
  Claim C2, amended. \<^verbatim>\<open>addEvent\<close> never fails, whether or not the session exists. It
  returns the event with the identifier \<open>event_<clock>_<suffix>\<close>, which determines the
  clock reading and the random suffix it was built from, and appends the event at the end
  of the list stored under the given session identifier, leaving every other identifier
  alone. When the session exists, the same call sets its \<open>totalEvents\<close> to the length
  and its \<open>integrityScore\<close> to the score of the new list; when it does not, the session
  table is unchanged. A request with non-empty session identifier and description, a valid
  type and a valid severity is answered with status 200 and that event.
\<close>

theorem addEvent_always_succeeds:
  "\<exists>e db'. addEvent db sid event now rnd = (e, db')
     \<and> event_id e = new_event_id now rnd \<and> sessionId e = sid
     \<and> (\<forall>now' rnd'. new_event_id now' rnd' = event_id e \<longrightarrow> now' = now \<and> rnd' = rnd)
     \<and> getEvents db' sid = getEvents db sid @ [e]
     \<and> (\<forall>other. other \<noteq> sid \<longrightarrow>
           getEvents db' other = getEvents db other \<and> sessions db' other = sessions db other)
     \<and> (case sessions db sid of
           None \<Rightarrow> sessions db' = sessions db
         | Some s \<Rightarrow>
             sessions db' sid =
               Some (s\<lparr>totalEvents := int (length (getEvents db' sid)),
                       integrityScore := score (getEvents db' sid)\<rparr>))
     \<and> (sid \<noteq> [] \<and> description event \<noteq> [] \<longrightarrow>
           POST_events db
             (Some \<lparr>b_sessionId = Some sid, b_type = Some (type_name (etype event)),
                    b_description = Some (description event),
                    b_severity = Some (severity_name (severity event)),
                    b_metadata = metadata event\<rparr>) now rnd (timestamp event) =
           (Success e, db'))"
proof -
  define e where "e = fst (addEvent db sid event now rnd)"
  define db' where "db' = snd (addEvent db sid event now rnd)"
  have pair: "addEvent db sid event now rnd = (e, db')"
    by (simp add: e_def db'_def)
  have ident: "event_id e = new_event_id now rnd \<and> sessionId e = sid"
    by (simp add: e_def fst_addEvent)
  have unique: "\<forall>now' rnd'. new_event_id now' rnd' = event_id e \<longrightarrow> now' = now \<and> rnd' = rnd"
    using ident new_event_id_inj by metis
  have ev: "getEvents db' sid = getEvents db sid @ [e]"
    unfolding e_def db'_def by (rule getEvents_addEvent)
  have others: "\<forall>other. other \<noteq> sid \<longrightarrow>
      getEvents db' other = getEvents db other \<and> sessions db' other = sessions db other"
    unfolding db'_def using addEvent_other by blast
  have sess: "case sessions db sid of
           None \<Rightarrow> sessions db' = sessions db
         | Some s \<Rightarrow>
             sessions db' sid =
               Some (s\<lparr>totalEvents := int (length (getEvents db' sid)),
                       integrityScore := score (getEvents db' sid)\<rparr>)"
  proof (cases "sessions db sid")
    case None
    then show ?thesis
      unfolding db'_def by (simp add: addEvent_no_session)
  next
    case (Some s)
    have "sessions db' sid =
        Some (s\<lparr>totalEvents := int (length (getEvents db sid)) + 1,
                integrityScore := score (getEvents db sid @ [e])\<rparr>)"
      unfolding db'_def e_def using Some by (simp only: sessions_addEvent_same option.map)
    with Some show ?thesis
      by (simp add: ev)
  qed
  have record_eq: "\<lparr>etype = etype event, timestamp = timestamp event,
      description = description event, severity = severity event,
      metadata = metadata event\<rparr> = event"
    by simp
  have route: "sid \<noteq> [] \<and> description event \<noteq> [] \<longrightarrow>
           POST_events db
             (Some \<lparr>b_sessionId = Some sid, b_type = Some (type_name (etype event)),
                    b_description = Some (description event),
                    b_severity = Some (severity_name (severity event)),
                    b_metadata = metadata event\<rparr>) now rnd (timestamp event) =
           (Success e, db')"
  proof (intro impI, elim conjE)
    assume "sid \<noteq> []" and "description event \<noteq> []"
    from POST_events_valid [OF this, of db "etype event" "severity event" "metadata event"
        now rnd "timestamp event"]
    show "POST_events db
             (Some \<lparr>b_sessionId = Some sid, b_type = Some (type_name (etype event)),
                    b_description = Some (description event),
                    b_severity = Some (severity_name (severity event)),
                    b_metadata = metadata event\<rparr>) now rnd (timestamp event) =
           (Success e, db')"
      by (simp only: record_eq e_def db'_def)
  qed
  from pair ident unique ev others sess route show ?thesis
    by blast
qed

theorem addEvent_always_succeeds_witness:
  "addEvent jane_db jane_id no_face_fields 1700000011002 ''p0o9i8u7y'' =
     (ghost_event\<lparr>sessionId := jane_id\<rparr>,
      \<lparr>sessions = [jane_id \<mapsto> jane\<lparr>totalEvents := 1, integrityScore := 90\<rparr>],
       events = [jane_id \<mapsto> [ghost_event\<lparr>sessionId := jane_id\<rparr>]]\<rparr>)
   \<and> jane_id \<noteq> [] \<and> description no_face_fields \<noteq> []
   \<and> fst (POST_events jane_db
        (Some \<lparr>b_sessionId = Some jane_id, b_type = Some ''no_face'',
               b_description = Some ''No face detected for more than 10 seconds'',
               b_severity = Some ''high'', b_metadata = None\<rparr>)
        1700000011002 ''p0o9i8u7y'' 1700000011000) = Success (ghost_event\<lparr>sessionId := jane_id\<rparr>)"
proof -
  have a: "addEvent jane_db jane_id no_face_fields 1700000011002 ''p0o9i8u7y'' =
     (ghost_event\<lparr>sessionId := jane_id\<rparr>,
      \<lparr>sessions = [jane_id \<mapsto> jane\<lparr>totalEvents := 1, integrityScore := 90\<rparr>],
       events = [jane_id \<mapsto> [ghost_event\<lparr>sessionId := jane_id\<rparr>]]\<rparr>)"
    by (simp add: addEvent_def Let_def jane_db_eq no_face_fields_def ghost_event_def
        event_id_eq totalDeductions_def)
  have h: "jane_id \<noteq> [] \<and> description no_face_fields \<noteq> []"
    by (simp add: jane_id_def no_face_fields_def)
  from addEvent_always_succeeds [of jane_db jane_id no_face_fields 1700000011002 "''p0o9i8u7y''"]
  obtain e db' where
    pair: "addEvent jane_db jane_id no_face_fields 1700000011002 ''p0o9i8u7y'' = (e, db')" and
    route: "jane_id \<noteq> [] \<and> description no_face_fields \<noteq> [] \<longrightarrow>
       POST_events jane_db
         (Some \<lparr>b_sessionId = Some jane_id, b_type = Some (type_name (etype no_face_fields)),
                b_description = Some (description no_face_fields),
                b_severity = Some (severity_name (severity no_face_fields)),
                b_metadata = metadata no_face_fields\<rparr>)
         1700000011002 ''p0o9i8u7y'' (timestamp no_face_fields) = (Success e, db')"
    by blast
  from pair a have e: "e = ghost_event\<lparr>sessionId := jane_id\<rparr>"
    by simp
  from route h have "POST_events jane_db
         (Some \<lparr>b_sessionId = Some jane_id, b_type = Some (type_name (etype no_face_fields)),
                b_description = Some (description no_face_fields),
                b_severity = Some (severity_name (severity no_face_fields)),
                b_metadata = metadata no_face_fields\<rparr>)
         1700000011002 ''p0o9i8u7y'' (timestamp no_face_fields) = (Success e, db')"
    by blast
  then have "fst (POST_events jane_db
        (Some \<lparr>b_sessionId = Some jane_id, b_type = Some ''no_face'',
               b_description = Some ''No face detected for more than 10 seconds'',
               b_severity = Some ''high'', b_metadata = None\<rparr>)
        1700000011002 ''p0o9i8u7y'' 1700000011000) = Success e"
    by (simp add: no_face_fields_def)
  with a h e show ?thesis
    by simp
qed

subsection \<open>Updating a session\<close>

lemma completed_db_eq:
  "completed_db =
     \<lparr>sessions = [jane_id \<mapsto> jane\<lparr>endTime := Some 1700000600000, status := completed\<rparr>],
      events = [jane_id \<mapsto> []]\<rparr>"
  by (simp add: completed_db_def updateSession_def jane_db_eq spread_def end_updates_def
      no_updates_def jane_def Let_def)

text \<open>
  Claim C3 fails as stated: the session of \<open>completed_db\<close> has status \<open>completed\<close>,
  and the update \<^verbatim>\<open>{ status: "terminated" }\<close> is accepted: the request is answered with
  status 200 and the stored session is now \<open>terminated\<close>.
\<close>

theorem terminate_completed_session_succeeds:
  "map_option status (sessions completed_db jane_id) = Some completed
   \<and> PATCH_session completed_db jane_id (Some terminate_updates) =
       (Success (jane\<lparr>endTime := Some 1700000600000, status := terminated\<rparr>),
        \<lparr>sessions = [jane_id \<mapsto> jane\<lparr>endTime := Some 1700000600000, status := terminated\<rparr>],
         events = [jane_id \<mapsto> []]\<rparr>)"
  by (simp add: completed_db_eq PATCH_session_def updateSession_def spread_def
      terminate_updates_def no_updates_def jane_def Let_def)

text \<open>
  Claim C3, amended. \<^verbatim>\<open>updateSession\<close> checks no transition. For every existing
  session, whatever its status, and every partial update it succeeds: it stores and
  returns the session with exactly the supplied fields overwritten, so a supplied status
  replaces the stored one, and the request is answered with status 200. The only failure
  is an unknown identifier: \<^verbatim>\<open>null\<close>, status 404, and an unchanged store.
\<close>

theorem updateSession_no_transition_check:
  "(case sessions db sid of
      None \<Rightarrow>
        updateSession db sid updates = (None, db) \<and>
        PATCH_session db sid (Some updates) = (Failure 404 ''Session not found'', db)
    | Some s \<Rightarrow>
        (\<exists>s'. updateSession db sid updates = (Some s', db\<lparr>sessions := (sessions db)(sid \<mapsto> s')\<rparr>)
           \<and> PATCH_session db sid (Some updates) =
               (Success s', db\<lparr>sessions := (sessions db)(sid \<mapsto> s')\<rparr>)
           \<and> s' = spread s updates
           \<and> status s' = (case u_status updates of None \<Rightarrow> status s | Some st \<Rightarrow> st)))"
  by (simp add: updateSession_def PATCH_session_def spread_def Let_def split: option.splits)

theorem updateSession_no_transition_check_witness:
  "sessions completed_db jane_id =
     Some (jane\<lparr>endTime := Some 1700000600000, status := completed\<rparr>)
   \<and> map_option status (fst (updateSession completed_db jane_id terminate_updates)) = Some terminated
   \<and> sessions completed_db ''no_such_session'' = None
   \<and> PATCH_session completed_db ''no_such_session'' (Some terminate_updates) =
       (Failure 404 ''Session not found'', completed_db)"
proof -
  have h: "sessions completed_db jane_id =
      Some (jane\<lparr>endTime := Some 1700000600000, status := completed\<rparr>)"
    by (simp add: completed_db_eq)
  have n: "sessions completed_db ''no_such_session'' = None"
    by (simp add: completed_db_eq jane_id_def)
  from updateSession_no_transition_check [of completed_db jane_id terminate_updates]
  have "map_option status (fst (updateSession completed_db jane_id terminate_updates)) =
      Some terminated"
    by (auto simp add: h terminate_updates_def no_updates_def)
  moreover
  from updateSession_no_transition_check [of completed_db "''no_such_session''" terminate_updates]
  have "PATCH_session completed_db ''no_such_session'' (Some terminate_updates) =
       (Failure 404 ''Session not found'', completed_db)"
    by (simp add: n)
  ultimately show ?thesis
    using h n by simp
qed

subsection \<open>The derived fields as a cache of the ledger\<close>

lemma cache_ok_empty: "cache_ok empty_db sid"
  by (simp add: cache_ok_def empty_db_def)

lemma sessions_createSession:
  "sessions (snd (createSession db now rnd start name)) sid =
     (if sid = new_session_id now rnd
      then Some \<lparr>session_id = new_session_id now rnd, candidateName = name,
                  startTime = start, endTime = None, status = active,
                  totalEvents = 0, integrityScore = 100\<rparr>
      else sessions db sid)"
  by (simp add: createSession_def Let_def)

lemma getEvents_createSession:
  "getEvents (snd (createSession db now rnd start name)) sid =
     (if sid = new_session_id now rnd then [] else getEvents db sid)"
  by (simp add: createSession_def getEvents_def Let_def)

lemma sessions_updateSession:
  "sessions (snd (updateSession db target updates)) sid =
     (if sid = target then map_option (\<lambda>s. spread s updates) (sessions db target)
      else sessions db sid)"
  by (simp add: updateSession_def Let_def split: option.splits)

lemma getEvents_updateSession:
  "getEvents (snd (updateSession db target updates)) sid = getEvents db sid"
  by (simp add: updateSession_def getEvents_def Let_def split: option.splits)

lemma cache_ok_createSession:
  assumes "cache_ok db sid"
  shows "cache_ok (snd (createSession db now rnd start name)) sid"
  using assms
  by (simp add: cache_ok_def sessions_createSession getEvents_createSession score_def split: option.splits)

lemma cache_ok_addEvent: 
  assumes "cache_ok db sid"
  shows "cache_ok (snd (addEvent db target event now rnd)) sid"
proof (cases "sid = target")
  case True
  show ?thesis
    unfolding True cache_ok_def
    by (simp add: sessions_addEvent_same getEvents_addEvent split: option.splits)
next
  case False
  then have "getEvents (snd (addEvent db target event now rnd)) sid = getEvents db sid"
    and "sessions (snd (addEvent db target event now rnd)) sid = sessions db sid"
    by (simp_all add: addEvent_other)
  with assms show ?thesis
    by (simp add: cache_ok_def split: option.splits)
qed

lemma cache_ok_updateSession:
  assumes "cache_ok db sid" "u_totalEvents updates = None" "u_integrityScore updates = None"
  shows "cache_ok (snd (updateSession db target updates)) sid"
proof (cases "sid = target")
  case True
  have "integrityScore (spread s updates) = integrityScore s"
    and "totalEvents (spread s updates) = totalEvents s" for s
    using assms(2,3) by (simp_all add: spread_def)
  with assms(1) show ?thesis
    unfolding True cache_ok_def
    by (simp add: sessions_updateSession getEvents_updateSession split: option.splits)
next
  case False
  with assms(1) show ?thesis
    by (simp add: cache_ok_def sessions_updateSession getEvents_updateSession split: option.splits)
qed

lemma cache_ok_apply_op:
  assumes "\<forall>sid. cache_ok db sid" "keeps_derived op"
  shows "cache_ok (apply_op db op) sid"
proof (cases op)
  case (CreateSession now rnd start name)
  with assms show ?thesis by (simp add: cache_ok_createSession)
next
  case (AddEvent target event now rnd)
  with assms show ?thesis by (simp add: cache_ok_addEvent)
next
  case (UpdateSession target updates)
  with assms show ?thesis by (simp add: cache_ok_updateSession)
qed

lemma cache_ok_run_ops:
  assumes "\<forall>sid. cache_ok db sid" "list_all keeps_derived ops"
  shows "cache_ok (run_ops db ops) sid"
  using assms
proof (induction ops arbitrary: db sid)
  case Nil
  then show ?case by (simp add: run_ops_def)
next
  case (Cons op ops)
  from Cons.prems have step: "\<forall>sid. cache_ok (apply_op db op) sid"
    by (simp add: cache_ok_apply_op)
  from Cons.prems have "list_all keeps_derived ops" by simp
  with Cons.IH [OF step] show ?case
    by (simp add: run_ops_def)
qed

lemma jane_ops_run:
  "run_ops empty_db jane_ops =
     \<lparr>sessions = [jane_id \<mapsto> jane\<lparr>endTime := Some 1700000600000, status := completed,
                                 totalEvents := 1, integrityScore := 90\<rparr>],
      events = [jane_id \<mapsto> [ghost_event\<lparr>sessionId := jane_id\<rparr>]]\<rparr>"
proof -
  have "run_ops empty_db jane_ops =
      snd (updateSession
        (snd (addEvent jane_db jane_id no_face_fields 1700000011002 ''p0o9i8u7y''))
        jane_id end_updates)"
    by (simp add: run_ops_def jane_ops_def jane_db_def)
  also have "\<dots> = \<lparr>sessions = [jane_id \<mapsto> jane\<lparr>endTime := Some 1700000600000,
        status := completed, totalEvents := 1, integrityScore := 90\<rparr>],
      events = [jane_id \<mapsto> [ghost_event\<lparr>sessionId := jane_id\<rparr>]]\<rparr>"
    by (simp add: addEvent_def Let_def jane_db_eq no_face_fields_def ghost_event_def
        event_id_eq totalDeductions_def updateSession_def spread_def end_updates_def
        no_updates_def jane_def)
  finally show ?thesis .
qed

text \<open>
  Claim C8 fails as stated: \<^verbatim>\<open>updateSession\<close> accepts a direct write to the derived
  fields. On the fresh session of Jane Doe, whose ledger is empty and scores 100, the
  update \<^verbatim>\<open>{ totalEvents: 42, integrityScore: 7 }\<close> is stored as it is, and the stored
  score no longer agrees with the ledger.
\<close>

theorem updateSession_writes_derived_fields:
  "getEvents jane_db jane_id = [] \<and> score [] = 100
   \<and> PATCH_session jane_db jane_id (Some score_updates) =
       (Success (jane\<lparr>totalEvents := 42, integrityScore := 7\<rparr>),
        \<lparr>sessions = [jane_id \<mapsto> jane\<lparr>totalEvents := 42, integrityScore := 7\<rparr>],
         events = [jane_id \<mapsto> []]\<rparr>)
   \<and> \<not> cache_ok (snd (updateSession jane_db jane_id score_updates)) jane_id"
  by (simp add: jane_db_eq getEvents_def score_def PATCH_session_def updateSession_def
      spread_def score_updates_def no_updates_def jane_def cache_ok_def Let_def)

text \<open>
  Claim C8, amended. \<^verbatim>\<open>updateSession\<close> neither rejects nor ignores a direct write to
  \<open>totalEvents\<close> or \<open>integrityScore\<close>: a supplied value is stored as it is. The stored
  \<open>integrityScore\<close> and \<open>totalEvents\<close> of every session equal the score and the length
  of its event list in every state reached from the empty store by \<^verbatim>\<open>createSession\<close>,
  \<^verbatim>\<open>addEvent\<close> and those \<^verbatim>\<open>updateSession\<close> calls that supply neither derived field.
\<close>

theorem cache_holds_without_derived_writes:
  "(list_all keeps_derived ops \<longrightarrow> cache_ok (run_ops empty_db ops) sid)
   \<and> (case sessions db target of
         None \<Rightarrow> True
       | Some s \<Rightarrow>
           map_option integrityScore (sessions (snd (updateSession db target updates)) target) =
             Some (case u_integrityScore updates of None \<Rightarrow> integrityScore s | Some v \<Rightarrow> v) \<and>
           map_option totalEvents (sessions (snd (updateSession db target updates)) target) =
             Some (case u_totalEvents updates of None \<Rightarrow> totalEvents s | Some v \<Rightarrow> v))"
proof
  show "list_all keeps_derived ops \<longrightarrow> cache_ok (run_ops empty_db ops) sid"
    using cache_ok_run_ops [of empty_db ops sid] by (simp add: cache_ok_empty)
next
  show "case sessions db target of
         None \<Rightarrow> True
       | Some s \<Rightarrow>
           map_option integrityScore (sessions (snd (updateSession db target updates)) target) =
             Some (case u_integrityScore updates of None \<Rightarrow> integrityScore s | Some v \<Rightarrow> v) \<and>
           map_option totalEvents (sessions (snd (updateSession db target updates)) target) =
             Some (case u_totalEvents updates of None \<Rightarrow> totalEvents s | Some v \<Rightarrow> v)"
    by (simp add: sessions_updateSession spread_def split: option.splits)
qed

theorem cache_holds_without_derived_writes_witness:
  "list_all keeps_derived jane_ops
   \<and> cache_ok (run_ops empty_db jane_ops) jane_id
   \<and> map_option integrityScore (sessions (run_ops empty_db jane_ops) jane_id) = Some 90
   \<and> getEvents (run_ops empty_db jane_ops) jane_id = [ghost_event\<lparr>sessionId := jane_id\<rparr>]
   \<and> sessions jane_db jane_id = Some jane
   \<and> map_option integrityScore
        (sessions (snd (updateSession jane_db jane_id score_updates)) jane_id) = Some 7"
proof -
  have k: "list_all keeps_derived jane_ops"
    by (simp add: jane_ops_def end_updates_def no_updates_def)
  have h: "sessions jane_db jane_id = Some jane"
    by (simp add: jane_db_eq)
  from cache_holds_without_derived_writes [of jane_ops jane_id jane_db jane_id score_updates]
  have "cache_ok (run_ops empty_db jane_ops) jane_id"
    and "map_option integrityScore
        (sessions (snd (updateSession jane_db jane_id score_updates)) jane_id) = Some 7"
    using k h by (simp_all add: score_updates_def no_updates_def)
  with k h show ?thesis
    by (simp add: jane_ops_run getEvents_def)
qed

subsection \<open>Reading events\<close>

lemma ghost_db_eq:
  "ghost_db = \<lparr>sessions = Map.empty, events = [''no_such_session'' \<mapsto> [ghost_event]]\<rparr>"
  by (simp add: ghost_db_def addEvent_def Let_def empty_db_def no_face_fields_def
      ghost_event_def event_id_eq)

text \<open>
  Every key of the event table stays the key of a session as long as no event is appended
  under an identifier without a session.
\<close>

lemma ledger_keys_apply_op:
  assumes "dom (events db) \<subseteq> dom (sessions db)" and "appends_to_existing db op"
  shows "dom (events (apply_op db op)) \<subseteq> dom (sessions (apply_op db op))"
proof (cases op)
  case (CreateSession now rnd start name)
  with assms(1) show ?thesis
    by (auto simp add: createSession_def Let_def)
next
  case (AddEvent sid event now rnd)
  with assms(2) obtain s where "sessions db sid = Some s"
    by auto
  with assms(1) AddEvent show ?thesis
    by (auto simp add: addEvent_def Let_def)
next
  case (UpdateSession sid updates)
  with assms(1) show ?thesis
    by (auto simp add: updateSession_def Let_def split: option.splits)
qed

text \<open>
  Claim C10 fails as stated. \<open>ghost_db\<close> is reached from the empty store by one
  \<^verbatim>\<open>addEvent\<close> under an identifier that names no session; for that identifier both
  readers and the route return the stored event, not the empty sequence.
\<close>

theorem getEvents_without_session_nonempty:
  "sessions ghost_db ''no_such_session'' = None
   \<and> getEvents ghost_db ''no_such_session'' = [ghost_event]
   \<and> getEventsByType ghost_db ''no_such_session'' ''no_face'' = [ghost_event]
   \<and> GET_events ghost_db (Some ''no_such_session'') None = Success [ghost_event]"
  by (simp add: ghost_db_eq getEvents_def getEventsByType_def GET_events_def ghost_event_def)

text \<open>
  Claim C10, amended. For every session identifier under which the event table holds no
  list, \<^verbatim>\<open>getEvents\<close> and \<^verbatim>\<open>getEventsByType\<close> return the empty sequence rather than
  a not-found error, and the route answers with status 200 and the empty list, exactly as
  for a newly created session. That covers every identifier that names no session as long
  as every key of the event table is the key of a session, which is the case until an
  event is appended under an unknown identifier.
\<close>

theorem getEvents_unknown_session_empty:
  "(events db sid = None \<longrightarrow>
      getEvents db sid = [] \<and> getEventsByType db sid ty = [] \<and>
      (sid \<noteq> [] \<longrightarrow> GET_events db (Some sid) type_param = Success []))
   \<and> (dom (events db) \<subseteq> dom (sessions db) \<and> sessions db sid = None \<longrightarrow> events db sid = None)
   \<and> getEvents (snd (createSession db now rnd start name)) (new_session_id now rnd) = []"
proof (intro conjI impI)
  assume "dom (events db) \<subseteq> dom (sessions db) \<and> sessions db sid = None"
  then show "events db sid = None"
    by (auto simp add: dom_def)
next
  show "getEvents (snd (createSession db now rnd start name)) (new_session_id now rnd) = []"
    by (simp add: getEvents_createSession)
next
  assume "events db sid = None" and "sid \<noteq> []"
  then show "GET_events db (Some sid) type_param = Success []"
    by (simp add: GET_events_def getEvents_def getEventsByType_def split: option.splits)
qed (simp_all add: getEvents_def getEventsByType_def)

theorem getEvents_unknown_session_empty_witness:
  "events jane_db ''no_such_session'' = None
   \<and> ''no_such_session'' \<noteq> []
   \<and> dom (events jane_db) \<subseteq> dom (sessions jane_db)
   \<and> sessions jane_db ''no_such_session'' = None
   \<and> getEvents jane_db ''no_such_session'' = []
   \<and> getEventsByType jane_db ''no_such_session'' ''no_face'' = []
   \<and> GET_events jane_db (Some ''no_such_session'') (Some ''no_face'') = Success []
   \<and> getEvents jane_db jane_id = []"
proof -
  have h: "events jane_db ''no_such_session'' = None"
    and n: "sessions jane_db ''no_such_session'' = None"
    and d: "dom (events jane_db) \<subseteq> dom (sessions jane_db)"
    by (simp_all add: jane_db_eq jane_id_def)
  have j: "getEvents jane_db jane_id = []"
    using getEvents_unknown_session_empty
      [of empty_db "''x''" "''no_face''" None 1700000000000 "''k3x9q2m1z''" 1700000000000 "''Jane Doe''"]
    by (simp add: jane_db_def jane_id_eq)
  from getEvents_unknown_session_empty
      [of jane_db "''no_such_session''" "''no_face''" "Some ''no_face''"] h
  have "getEvents jane_db ''no_such_session'' = []"
    and "getEventsByType jane_db ''no_such_session'' ''no_face'' = []"
    and "GET_events jane_db (Some ''no_such_session'') (Some ''no_face'') = Success []"
    by simp_all
  with h n d j show ?thesis
    by simp
qed

subsection \<open>Creating a session\<close>

lemma trim_blank: "trim ''   '' = []"
  by (simp add: trim_def is_space_def)

text \<open>
  Claim C4 at the input \<^verbatim>\<open>{ "candidateName": "   " }\<close>. The route tests the name before
  it trims it: the three spaces are a non-empty string, so the request is accepted, and
  the session is created with the trimmed, empty, candidate name.
\<close>

theorem POST_sessions_blank_name_accepted:
  "trim ''   '' = []
   \<and> POST_sessions empty_db (Some (JString ''   '')) 1700000000000 ''k3x9q2m1z'' 1700000000000 =
       (Success (jane\<lparr>candidateName := []\<rparr>),
        \<lparr>sessions = [jane_id \<mapsto> jane\<lparr>candidateName := []\<rparr>], events = [jane_id \<mapsto> []]\<rparr>)"
  by (simp add: trim_blank POST_sessions_def createSession_def Let_def empty_db_def jane_id_eq
      jane_def)

theorem POST_sessions_blank_name_accepted_witness:
  "truthy (JString ''   '') \<and> typeof_string (JString ''   '')
   \<and> map_option candidateName
        (sessions (snd (POST_sessions empty_db (Some (JString ''   '')) 1700000000000
           ''k3x9q2m1z'' 1700000000000)) jane_id) = Some []"
  using POST_sessions_blank_name_accepted by simp

text \<open>
  What the route does for every body: it answers 400 unless the name is a non-empty
  string, and a name it accepts yields an active session with score 100 and no events.
\<close>

lemma POST_sessions_cases:
  "fst (POST_sessions db (Some v) now rnd start) =
     (case v of
        JString s \<Rightarrow>
          if s = [] then Failure 400 ''Candidate name is required''
          else Success \<lparr>session_id = new_session_id now rnd, candidateName = trim s,
                         startTime = start, endTime = None, status = active,
                         totalEvents = 0, integrityScore = 100\<rparr>
      | _ \<Rightarrow> Failure 400 ''Candidate name is required'')"
  by (cases v) (simp_all add: POST_sessions_def createSession_def Let_def)

section \<open>Properties of the recommendations\<close>

lemma jane_stats_eq: "getSessionStats jane_db jane_id 1700000600000 = Some jane_stats"
  by (simp add: getSessionStats_def jane_db_eq jane_stats_def jane_def)

text \<open>
  Claim C7. The list of recommendations is the tier message of the score band (at least
  90, at least 70, at least 50, below 50), followed in this order by the focus-loss advisory
  exactly when the \<open>focus_loss\<close> count exceeds 3, the workspace advisory exactly when the
  \<open>suspicious_object\<close> count exceeds 0, the assistance advisory exactly when the
  \<open>multiple_faces\<close> count exceeds 0, and the investigation advisory exactly when the
  high-severity count exceeds 2. It is never empty.
\<close>

theorem generateRecommendations_rules:
  "generateRecommendations stats =
     tier_message (integrityScore (stats_session stats)) #
     advisory (by_focus_loss (eventsByType stats) > 3)
       ''Candidate frequently lost focus. Consider environment assessment.'' @
     advisory (by_suspicious_object (eventsByType stats) > 0)
       ''Suspicious objects detected. Verify candidate workspace setup.'' @
     advisory (by_multiple_faces (eventsByType stats) > 0)
       ''Multiple faces detected. Investigate potential unauthorized assistance.'' @
     advisory (by_high (eventsBySeverity stats) > 2)
       ''Multiple high-severity events recorded. Detailed investigation required.''
   \<and> generateRecommendations stats =
       recommend (integrityScore (stats_session stats)) (by_focus_loss (eventsByType stats))
         (by_suspicious_object (eventsByType stats)) (by_multiple_faces (eventsByType stats))
         (by_high (eventsBySeverity stats))
   \<and> generateRecommendations stats \<noteq> []
   \<and> tier_message (integrityScore (stats_session stats)) \<in>
       {''Excellent interview integrity maintained throughout the session.'',
        ''Good overall performance with minor integrity concerns.'',
        ''Moderate integrity issues detected. Review flagged events.'',
        ''Significant integrity concerns. Manual review strongly recommended.''}"
proof -
  have eq: "generateRecommendations stats =
       recommend (integrityScore (stats_session stats)) (by_focus_loss (eventsByType stats))
         (by_suspicious_object (eventsByType stats)) (by_multiple_faces (eventsByType stats))
         (by_high (eventsBySeverity stats))"
    by (simp add: generateRecommendations_def recommend_def tier_message_def advisory_def Let_def)
  have tier: "tier_message (integrityScore (stats_session stats)) \<in>
       {''Excellent interview integrity maintained throughout the session.'',
        ''Good overall performance with minor integrity concerns.'',
        ''Moderate integrity issues detected. Review flagged events.'',
        ''Significant integrity concerns. Manual review strongly recommended.''}"
    unfolding tier_message_def by (simp only: insert_iff if_split simp_thms) simp
  from eq tier show ?thesis
    unfolding recommend_def by simp
qed

theorem generateRecommendations_rules_witness:
  "generateRecommendations jane_stats =
     [''Excellent interview integrity maintained throughout the session.'']
   \<and> generateRecommendations
        (jane_stats\<lparr>stats_session := jane\<lparr>integrityScore := 65\<rparr>,
                    eventsByType := \<lparr>by_focus_loss = 1, by_no_face = 2, by_multiple_faces = 1,
                                     by_suspicious_object = 0\<rparr>,
                    eventsBySeverity := \<lparr>by_low = 0, by_medium = 1, by_high = 3\<rparr>\<rparr>) =
     [''Moderate integrity issues detected. Review flagged events.'',
      ''Multiple faces detected. Investigate potential unauthorized assistance.'',
      ''Multiple high-severity events recorded. Detailed investigation required.'']"
proof -
  have a: "generateRecommendations jane_stats =
     [''Excellent interview integrity maintained throughout the session.'']"
    using generateRecommendations_rules [of jane_stats]
    by (simp add: jane_stats_def jane_def tier_message_def advisory_def)
  have b: "generateRecommendations
        (jane_stats\<lparr>stats_session := jane\<lparr>integrityScore := 65\<rparr>,
                    eventsByType := \<lparr>by_focus_loss = 1, by_no_face = 2, by_multiple_faces = 1,
                                     by_suspicious_object = 0\<rparr>,
                    eventsBySeverity := \<lparr>by_low = 0, by_medium = 1, by_high = 3\<rparr>\<rparr>) =
     [''Moderate integrity issues detected. Review flagged events.'',
      ''Multiple faces detected. Investigate potential unauthorized assistance.'',
      ''Multiple high-severity events recorded. Detailed investigation required.'']"
    using generateRecommendations_rules
      [of "jane_stats\<lparr>stats_session := jane\<lparr>integrityScore := 65\<rparr>,
                    eventsByType := \<lparr>by_focus_loss = 1, by_no_face = 2, by_multiple_faces = 1,
                                     by_suspicious_object = 0\<rparr>,
                    eventsBySeverity := \<lparr>by_low = 0, by_medium = 1, by_high = 3\<rparr>\<rparr>"]
    by (simp add: jane_stats_def jane_def tier_message_def advisory_def)
  from a b show ?thesis by simp
qed

section \<open>Properties of the debouncer\<close>

subsection \<open>One tick\<close>

lemma multiple_faces_tick:
  "of_type multiple_faces (snd (handleFaceDetection now result prev)) =
     (if faceCount result > 1
      then [(multiple_faces, show_int (faceCount result) @ '' faces detected in frame'', high)]
      else [])"
  by (simp add: handleFaceDetection_def of_type_def Let_def)

lemma no_face_tick:
  "of_type no_face (snd (handleFaceDetection now result prev)) =
     (if faceCount result = 0 \<and> now - lastFaceTime prev > 10000
      then [(no_face, ''No face detected for more than 10 seconds'', high)]
      else [])"
  by (simp add: handleFaceDetection_def of_type_def Let_def)

lemma focus_loss_tick:
  "of_type focus_loss (snd (handleFaceDetection now result prev)) =
     (if (case (if isLookingAway result \<and> \<not> isLookingAway_s prev then Some now
                else if \<not> isLookingAway result then None
                else lookAwayStartTime prev) of
            None \<Rightarrow> False
          | Some t \<Rightarrow> t \<noteq> 0 \<and> now - t > 5000)
      then [(focus_loss, ''Candidate looked away from screen for more than 5 seconds'', medium)]
      else [])"
  by (simp add: handleFaceDetection_def of_type_def Let_def)

lemma lastFaceTime_tick:
  "lastFaceTime (fst (handleFaceDetection now result prev)) =
     (if faceCount result > 0 then now else lastFaceTime prev)"
  by (simp add: handleFaceDetection_def Let_def)

lemma isLookingAway_tick:
  "isLookingAway_s (fst (handleFaceDetection now result prev)) = isLookingAway result"
  by (simp add: handleFaceDetection_def Let_def)

lemma lookAwayStartTime_tick:
  "lookAwayStartTime (fst (handleFaceDetection now result prev)) =
     (let start = (if isLookingAway result \<and> \<not> isLookingAway_s prev then Some now
                   else if \<not> isLookingAway result then None
                   else lookAwayStartTime prev)
      in case start of
           None \<Rightarrow> None
         | Some t \<Rightarrow> if t \<noteq> 0 \<and> now - t > 5000 then Some now else Some t)"
  by (simp add: handleFaceDetection_def Let_def split: option.splits)

lemma show_int_3: "show_int 3 = ''3''"
  by (simp add: show_int_def show_nat.simps digit_char_def)

text \<open>
  Claim C9. A tick with more than one face emits exactly one \<open>multiple_faces\<close> event,
  of severity high, whatever the state before the tick; its description states the count,
  \<open>3 faces detected in frame\<close> for three faces.
\<close>

theorem multiple_faces_every_tick:
  assumes "faceCount result > 1"
  shows "of_type multiple_faces (snd (handleFaceDetection now result prev)) =
           [(multiple_faces, show_int (faceCount result) @ '' faces detected in frame'', high)]
         \<and> (faceCount result = 3 \<longrightarrow>
              of_type multiple_faces (snd (handleFaceDetection now result prev)) =
                [(multiple_faces, ''3 faces detected in frame'', high)])"
  using assms by (simp add: multiple_faces_tick show_int_3)

theorem multiple_faces_every_tick_witness:
  "faceCount three_faces > 1 \<and> faceCount three_faces = 3
   \<and> snd (handleFaceDetection 1700000005000 three_faces (initial_stats 1700000000000)) =
       [(multiple_faces, ''3 faces detected in frame'', high)]"
proof -
  have h: "faceCount three_faces > 1" and h3: "faceCount three_faces = 3"
    by (simp_all add: three_faces_def)
  have all: "snd (handleFaceDetection 1700000005000 three_faces (initial_stats 1700000000000)) =
      of_type multiple_faces
        (snd (handleFaceDetection 1700000005000 three_faces (initial_stats 1700000000000)))"
    by (simp add: handleFaceDetection_def of_type_def Let_def three_faces_def initial_stats_def)
  from multiple_faces_every_tick [OF h, of 1700000005000 "initial_stats 1700000000000"] h3
  have "of_type multiple_faces
      (snd (handleFaceDetection 1700000005000 three_faces (initial_stats 1700000000000))) =
      [(multiple_faces, ''3 faces detected in frame'', high)]"
    by blast
  with h h3 all show ?thesis
    by simp
qed

subsection \<open>Runs of ticks without a face\<close>

lemma run_ticks_Cons:
  "run_ticks ((now, result) # ticks) s =
     (fst (run_ticks ticks (fst (handleFaceDetection now result s))),
      snd (handleFaceDetection now result s) #
      snd (run_ticks ticks (fst (handleFaceDetection now result s))))"
  by (simp add: split_beta)

lemma length_run_ticks: "length (snd (run_ticks ticks s)) = length ticks"
  by (induction ticks arbitrary: s) (auto simp add: split_beta)

lemma run_ticks_absent:
  assumes "\<forall>(t, r) \<in> set ticks. faceCount r = 0"
  shows "lastFaceTime (fst (run_ticks ticks s)) = lastFaceTime s
         \<and> (\<forall>i < length ticks.
               of_type no_face (snd (run_ticks ticks s) ! i) =
                 (if fst (ticks ! i) - lastFaceTime s > 10000
                  then [(no_face, ''No face detected for more than 10 seconds'', high)]
                  else []))"
  using assms
proof (induction ticks arbitrary: s)
  case Nil
  then show ?case by simp
next
  case (Cons tick ticks)
  obtain now result where tick: "tick = (now, result)"
    by (cases tick)
  define s1 where "s1 = fst (handleFaceDetection now result s)"
  from Cons.prems tick have absent: "faceCount result = 0"
    and rest: "\<forall>(t, r) \<in> set ticks. faceCount r = 0"
    by simp_all
  from absent have keep: "lastFaceTime s1 = lastFaceTime s"
    by (simp add: s1_def lastFaceTime_tick)
  from Cons.IH [OF rest, of s1] keep
  have last: "lastFaceTime (fst (run_ticks ticks s1)) = lastFaceTime s"
    and later: "\<forall>i < length ticks.
               of_type no_face (snd (run_ticks ticks s1) ! i) =
                 (if fst (ticks ! i) - lastFaceTime s > 10000
                  then [(no_face, ''No face detected for more than 10 seconds'', high)]
                  else [])"
    by simp_all
  have first: "of_type no_face (snd (handleFaceDetection now result s)) =
      (if now - lastFaceTime s > 10000
       then [(no_face, ''No face detected for more than 10 seconds'', high)]
       else [])"
    using absent by (simp add: no_face_tick)
  have "of_type no_face (snd (run_ticks (tick # ticks) s) ! i) =
      (if fst ((tick # ticks) ! i) - lastFaceTime s > 10000
       then [(no_face, ''No face detected for more than 10 seconds'', high)]
       else [])" if "i < length (tick # ticks)" for i
  proof (cases i)
    case 0
    with first show ?thesis
      by (simp add: tick run_ticks_Cons del: run_ticks.simps)
  next
    case (Suc j)
    with that have "j < length ticks" by simp
    with later Suc show ?thesis
      by (simp add: tick run_ticks_Cons s1_def del: run_ticks.simps)
  qed
  with last show ?case
    by (simp add: tick run_ticks_Cons s1_def del: run_ticks.simps)
qed

lemma nobody_tick:
  "handleFaceDetection now nobody s =
     (\<lparr>currentFaces = 0, isLookingAway_s = False, confidence_s = 0,
       lastFaceTime = lastFaceTime s, lookAwayStartTime = None\<rparr>,
      if now - lastFaceTime s > 10000
      then [(no_face, ''No face detected for more than 10 seconds'', high)] else [])"
  by (simp add: handleFaceDetection_def Let_def nobody_def)

lemma one_face_tick:
  "handleFaceDetection now one_face s =
     (\<lparr>currentFaces = 1, isLookingAway_s = False, confidence_s = 0.8,
       lastFaceTime = now, lookAwayStartTime = None\<rparr>, [])"
  by (simp add: handleFaceDetection_def Let_def one_face_def)

text \<open>
  Claim C6. After a tick at \<open>t0\<close> that saw a face, every tick of a run of ticks without
  a face that comes more than 10000 ms after \<open>t0\<close> emits one \<open>no_face\<close> event, of
  severity high and with the description below (and a tick of the run that comes no later
  emits none). The last-seen timestamp stays \<open>t0\<close> throughout the run, emission or not,
  so the event is emitted again at every later tick of the absence.
\<close>

theorem no_face_every_tick_after_10s:
  assumes "faceCount seen > 0" and "\<forall>(t, r) \<in> set ticks. faceCount r = 0"
  shows "lastFaceTime (fst (handleFaceDetection t0 seen prev)) = t0
         \<and> lastFaceTime (fst (run_ticks ticks (fst (handleFaceDetection t0 seen prev)))) = t0
         \<and> length (snd (run_ticks ticks (fst (handleFaceDetection t0 seen prev)))) = length ticks
         \<and> (\<forall>i < length ticks.
               of_type no_face
                 (snd (run_ticks ticks (fst (handleFaceDetection t0 seen prev))) ! i) =
               (if fst (ticks ! i) - t0 > 10000
                then [(no_face, ''No face detected for more than 10 seconds'', high)]
                else []))"
proof -
  from assms(1) have start: "lastFaceTime (fst (handleFaceDetection t0 seen prev)) = t0"
    by (simp add: lastFaceTime_tick)
  from run_ticks_absent [OF assms(2), of "fst (handleFaceDetection t0 seen prev)"] start
  show ?thesis
    by (simp add: length_run_ticks)
qed

theorem no_face_every_tick_after_10s_witness:
  "faceCount one_face > 0
   \<and> map (faceCount \<circ> snd)
         [(1700000010000::int, nobody), (1700000011000, nobody), (1700000012000, nobody)] =
       [0, 0, 0]
   \<and> snd (run_ticks [(1700000010000, nobody), (1700000011000, nobody), (1700000012000, nobody)]
        (fst (handleFaceDetection 1700000000000 one_face (initial_stats 1699999999000)))) =
      [[],
       [(no_face, ''No face detected for more than 10 seconds'', high)],
       [(no_face, ''No face detected for more than 10 seconds'', high)]]
   \<and> lastFaceTime (fst (run_ticks
        [(1700000010000, nobody), (1700000011000, nobody), (1700000012000, nobody)]
        (fst (handleFaceDetection 1700000000000 one_face (initial_stats 1699999999000))))) =
      1700000000000"
proof -
  let ?ticks = "[(1700000010000, nobody), (1700000011000, nobody), (1700000012000::int, nobody)]"
  let ?s1 = "fst (handleFaceDetection 1700000000000 one_face (initial_stats 1699999999000))"
  have h: "faceCount one_face > 0"
    by (simp add: one_face_def)
  have a: "\<forall>(t, r) \<in> set ?ticks. faceCount r = 0"
    by (simp add: nobody_def)
  have run: "snd (run_ticks ?ticks ?s1) =
      [[],
       [(no_face, ''No face detected for more than 10 seconds'', high)],
       [(no_face, ''No face detected for more than 10 seconds'', high)]]"
    by (simp add: run_ticks_Cons nobody_tick one_face_tick del: run_ticks.simps(2))
  have last: "lastFaceTime (fst (run_ticks ?ticks ?s1)) = 1700000000000"
    using no_face_every_tick_after_10s [OF h a, of 1700000000000 "initial_stats 1699999999000"]
    by (rule conjunct1 [OF conjunct2])
  have z: "map (faceCount \<circ> snd) ?ticks = [0, 0, 0]"
    by (simp add: nobody_def)
  from h z run last show ?thesis
    by (intro conjI)
qed

subsection \<open>Runs of ticks looking away\<close>

lemma count_type_Nil: "count_type ty [] = 0"
  by (simp add: count_type_def of_type_def)

lemma count_type_Cons: "count_type ty (out # outs) = length (of_type ty out) + count_type ty outs"
  by (simp add: count_type_def of_type_def)

lemma away_run_count:
  assumes "isLookingAway_s s" and "lookAwayStartTime s = Some (t - 1000 * int k)"
    and "1 \<le> k" and "k \<le> 6" and "0 < t - 1000 * int k"
    and "\<forall>r \<in> set rs. isLookingAway r"
  shows "count_type focus_loss (snd (run_ticks (sampled t rs) s)) = (length rs + k - 1) div 6"
  using assms
proof (induction rs arbitrary: t s k)
  case Nil
  then show ?case by (simp add: count_type_Nil)
next
  case (Cons r rs)
  define s1 where "s1 = fst (handleFaceDetection t r s)"
  from Cons.prems have away: "isLookingAway r" and rest: "\<forall>r \<in> set rs. isLookingAway r"
    by simp_all
  have s1_away: "isLookingAway_s s1"
    using away by (simp add: s1_def isLookingAway_tick)
  have unfold: "count_type focus_loss (snd (run_ticks (sampled t (r # rs)) s)) =
      length (of_type focus_loss (snd (handleFaceDetection t r s))) +
      count_type focus_loss (snd (run_ticks (sampled (t + 1000) rs) s1))"
    by (simp add: run_ticks_Cons count_type_Cons s1_def del: run_ticks.simps(2))
  show ?case
  proof (cases "k = 6")
    case True
    with Cons.prems away have emit: "length (of_type focus_loss (snd (handleFaceDetection t r s))) = 1"
      by (simp add: focus_loss_tick)
    from True Cons.prems away have "lookAwayStartTime s1 = Some t"
      by (simp add: s1_def lookAwayStartTime_tick)
    then have start: "lookAwayStartTime s1 = Some ((t + 1000) - 1000 * int 1)"
      by simp
    from True Cons.prems have pos: "0 < (t + 1000) - 1000 * int 1"
      by simp
    have "count_type focus_loss (snd (run_ticks (sampled (t + 1000) rs) s1)) =
        (length rs + 1 - 1) div 6"
      by (rule Cons.IH [OF s1_away start _ _ pos rest]) simp_all
    with unfold emit True show ?thesis
      by simp
  next
    case False
    with Cons.prems have small: "k < 6" by simp
    with Cons.prems away have quiet: "length (of_type focus_loss (snd (handleFaceDetection t r s))) = 0"
      by (simp add: focus_loss_tick)
    from small Cons.prems away have "lookAwayStartTime s1 = Some (t - 1000 * int k)"
      by (simp add: s1_def lookAwayStartTime_tick)
    then have start: "lookAwayStartTime s1 = Some ((t + 1000) - 1000 * int (Suc k))"
      by simp
    from Cons.prems have pos: "0 < (t + 1000) - 1000 * int (Suc k)"
      by simp
    have "count_type focus_loss (snd (run_ticks (sampled (t + 1000) rs) s1)) =
        (length rs + Suc k - 1) div 6"
      using small by (intro Cons.IH [OF s1_away start _ _ pos rest]) simp_all
    with unfold quiet show ?thesis
      by simp
  qed
qed

lemma away_episode_count:
  assumes "\<not> isLookingAway_s prev" and "0 < start" and "\<forall>r \<in> set rs. isLookingAway r"
  shows "count_type focus_loss (snd (run_ticks (sampled start rs) prev)) = (length rs - 1) div 6"
proof (cases rs)
  case Nil
  then show ?thesis by (simp add: count_type_Nil)
next
  case (Cons r rs')
  define s1 where "s1 = fst (handleFaceDetection start r prev)"
  from assms(3) Cons have away: "isLookingAway r" and rest: "\<forall>r \<in> set rs'. isLookingAway r"
    by simp_all
  have s1_away: "isLookingAway_s s1"
    using away by (simp add: s1_def isLookingAway_tick)
  from assms(1) away have quiet: "length (of_type focus_loss (snd (handleFaceDetection start r prev))) = 0"
    by (simp add: focus_loss_tick)
  from assms(1) away have "lookAwayStartTime s1 = Some start"
    by (simp add: s1_def lookAwayStartTime_tick)
  then have begun: "lookAwayStartTime s1 = Some ((start + 1000) - 1000 * int 1)"
    by simp
  from assms(2) have pos: "0 < (start + 1000) - 1000 * int 1"
    by simp
  have "count_type focus_loss (snd (run_ticks (sampled (start + 1000) rs') s1)) =
      (length rs' + 1 - 1) div 6"
    by (rule away_run_count [OF s1_away begun _ _ pos rest]) simp_all
  with quiet show ?thesis
    by (simp add: Cons run_ticks_Cons count_type_Cons s1_def del: run_ticks.simps(2))
qed

lemma looking_away_tick:
  "handleFaceDetection now looking_away s =
     (if (case (if \<not> isLookingAway_s s then Some now else lookAwayStartTime s) of
            None \<Rightarrow> False
          | Some t \<Rightarrow> t \<noteq> 0 \<and> now - t > 5000)
      then (\<lparr>currentFaces = 1, isLookingAway_s = True, confidence_s = 0.8,
             lastFaceTime = now, lookAwayStartTime = Some now\<rparr>,
            [(focus_loss, ''Candidate looked away from screen for more than 5 seconds'', medium)])
      else (\<lparr>currentFaces = 1, isLookingAway_s = True, confidence_s = 0.8,
             lastFaceTime = now,
             lookAwayStartTime = (if \<not> isLookingAway_s s then Some now else lookAwayStartTime s)\<rparr>,
            []))"
  by (simp add: handleFaceDetection_def Let_def looking_away_def)

lemma snd_run_ticks_Cons:
  "snd (run_ticks ((now, result) # ticks) s) =
     snd (handleFaceDetection now result s) #
     snd (run_ticks ticks (fst (handleFaceDetection now result s)))"
  by (simp add: split_beta)

lemma six_away: "replicate 6 x = [x, x, x, x, x, x]"
  by (simp add: numeral_eq_Suc)

lemma eleven_away: "replicate 11 x = [x, x, x, x, x, x, x, x, x, x, x]"
  by (simp add: numeral_eq_Suc)

lemma run6:
  "snd (run_ticks (sampled 1700000000000 (replicate 6 looking_away)) (initial_stats 1699999990000)) =
     [[], [], [], [], [], []]"
  by (simp add: six_away snd_run_ticks_Cons looking_away_tick initial_stats_def
      del: run_ticks.simps(2))

lemma run11:
  "snd (run_ticks (sampled 1700000000000 (replicate 11 looking_away)) (initial_stats 1699999990000)) =
     [[], [], [], [], [], [],
      [(focus_loss, ''Candidate looked away from screen for more than 5 seconds'', medium)],
      [], [], [], []]"
  by (simp add: eleven_away snd_run_ticks_Cons looking_away_tick initial_stats_def
      del: run_ticks.simps(2))

lemma seven_away: "replicate 7 x = [x, x, x, x, x, x, x]"
  by (simp add: numeral_eq_Suc)

text \<open>
  Claim C5 fails as stated. The component mounts with \<open>isLookingAway\<close> false, and the
  candidate looks away from the tick at 1700000000000 on, sampled every 1000 ms. The six
  ticks of the first 5001 ms (the last one 5000 ms after the first) emit no \<open>focus_loss\<close>
  event, and the eleven ticks of the first 10001 ms emit one, at the seventh tick.
\<close>

theorem focus_loss_counts_at_1000ms_sampling:
  "\<not> isLookingAway_s (initial_stats 1699999990000)
   \<and> map fst (sampled 1700000000000 (replicate 6 looking_away)) =
       [1700000000000, 1700000001000, 1700000002000, 1700000003000, 1700000004000,
        1700000005000]
   \<and> count_type focus_loss
        (snd (run_ticks (sampled 1700000000000 (replicate 6 looking_away))
           (initial_stats 1699999990000))) = 0
   \<and> snd (run_ticks (sampled 1700000000000 (replicate 11 looking_away))
        (initial_stats 1699999990000)) =
       [[], [], [], [], [], [],
        [(focus_loss, ''Candidate looked away from screen for more than 5 seconds'', medium)],
        [], [], [], []]
   \<and> count_type focus_loss
        (snd (run_ticks (sampled 1700000000000 (replicate 11 looking_away))
           (initial_stats 1699999990000))) = 1"
proof -
  have "\<not> isLookingAway_s (initial_stats 1699999990000)"
    by (simp add: initial_stats_def)
  moreover have "map fst (sampled 1700000000000 (replicate 6 looking_away)) =
       [1700000000000, 1700000001000, 1700000002000, 1700000003000, 1700000004000,
        1700000005000]"
    by (simp add: six_away)
  moreover have "count_type focus_loss
        (snd (run_ticks (sampled 1700000000000 (replicate 6 looking_away))
           (initial_stats 1699999990000))) = 0"
    by (simp only: run6) (simp add: count_type_def of_type_def)
  moreover have "count_type focus_loss
        (snd (run_ticks (sampled 1700000000000 (replicate 11 looking_away))
           (initial_stats 1699999990000))) = 1"
    by (simp only: run11) (simp add: count_type_def of_type_def)
  ultimately show ?thesis
    using run11 by (intro conjI)
qed

text \<open>
  Claim C5, amended. In a run of ticks sampled every 1000 ms in which \<open>isLookingAway\<close>
  turns from false to true at the first tick (at a positive clock reading) and stays true,
  a \<open>focus_loss\<close> event is emitted only at a tick more than 5000 ms after the episode
  start, and the start is reset to that tick: \<open>n\<close> ticks emit \<open>(n - 1) div 6\<close> events,
  none during the first 5001 ms (six ticks), exactly one during 10001 ms (eleven ticks)
  and two only with the thirteenth tick. Every \<open>focus_loss\<close> event has severity medium
  and the description below, and a tick emits at most one. A tick with \<open>isLookingAway\<close>
  false clears the episode timer and emits no \<open>focus_loss\<close> event.
\<close>

theorem focus_loss_debounce:
  assumes "\<not> isLookingAway_s prev" and "0 < start" and "\<forall>r \<in> set rs. isLookingAway r"
  shows "count_type focus_loss (snd (run_ticks (sampled start rs) prev)) = (length rs - 1) div 6
         \<and> (length rs = 6 \<longrightarrow>
               count_type focus_loss (snd (run_ticks (sampled start rs) prev)) = 0)
         \<and> (length rs = 11 \<longrightarrow>
               count_type focus_loss (snd (run_ticks (sampled start rs) prev)) = 1)
         \<and> (length rs = 13 \<longrightarrow>
               count_type focus_loss (snd (run_ticks (sampled start rs) prev)) = 2)
         \<and> of_type focus_loss (snd (handleFaceDetection now result s)) \<in>
             {[], [(focus_loss, ''Candidate looked away from screen for more than 5 seconds'',
                    medium)]}
         \<and> (\<not> isLookingAway result \<longrightarrow>
               lookAwayStartTime (fst (handleFaceDetection now result s)) = None \<and>
               of_type focus_loss (snd (handleFaceDetection now result s)) = [])"
proof -
  have count: "count_type focus_loss (snd (run_ticks (sampled start rs) prev)) =
      (length rs - 1) div 6"
    using assms by (rule away_episode_count)
  have shape: "of_type focus_loss (snd (handleFaceDetection now result s)) \<in>
      {[], [(focus_loss, ''Candidate looked away from screen for more than 5 seconds'', medium)]}"
    by (simp add: focus_loss_tick)
  have cleared: "\<not> isLookingAway result \<longrightarrow>
      lookAwayStartTime (fst (handleFaceDetection now result s)) = None \<and>
      of_type focus_loss (snd (handleFaceDetection now result s)) = []"
    by (simp add: focus_loss_tick lookAwayStartTime_tick)
  from count shape cleared show ?thesis
    by simp
qed

theorem focus_loss_debounce_witness:
  "\<not> isLookingAway_s (initial_stats 1699999990000)
   \<and> (0::int) < 1700000000000
   \<and> list_all isLookingAway (replicate 7 looking_away)
   \<and> snd (run_ticks (sampled 1700000000000 (replicate 7 looking_away))
        (initial_stats 1699999990000)) =
       [[], [], [], [], [], [],
        [(focus_loss, ''Candidate looked away from screen for more than 5 seconds'', medium)]]
   \<and> count_type focus_loss
        (snd (run_ticks (sampled 1700000000000 (replicate 7 looking_away))
           (initial_stats 1699999990000))) = 1
   \<and> \<not> isLookingAway one_face
   \<and> handleFaceDetection 1700000007000 one_face
        (fst (run_ticks (sampled 1700000000000 (replicate 7 looking_away))
           (initial_stats 1699999990000))) =
       (\<lparr>currentFaces = 1, isLookingAway_s = False, confidence_s = 0.8,
         lastFaceTime = 1700000007000, lookAwayStartTime = None\<rparr>, [])"
proof -
  have h1: "\<not> isLookingAway_s (initial_stats 1699999990000)"
    by (simp add: initial_stats_def)
  have h2: "(0::int) < 1700000000000"
    by simp
  have h3: "\<forall>r \<in> set (replicate 7 looking_away). isLookingAway r"
    by (simp add: looking_away_def)
  have h3': "list_all isLookingAway (replicate 7 looking_away)"
    using h3 by (simp only: list_all_iff)
  have h4: "\<not> isLookingAway one_face"
    by (simp add: one_face_def)
  have run: "snd (run_ticks (sampled 1700000000000 (replicate 7 looking_away))
        (initial_stats 1699999990000)) =
       [[], [], [], [], [], [],
        [(focus_loss, ''Candidate looked away from screen for more than 5 seconds'', medium)]]"
    by (simp add: seven_away snd_run_ticks_Cons looking_away_tick initial_stats_def
        del: run_ticks.simps(2))
  from focus_loss_debounce [OF h1 h2 h3, of 1700000007000 one_face
      "fst (run_ticks (sampled 1700000000000 (replicate 7 looking_away))
         (initial_stats 1699999990000))"]
  have count: "count_type focus_loss
        (snd (run_ticks (sampled 1700000000000 (replicate 7 looking_away))
           (initial_stats 1699999990000))) = 1"
    by simp
  have cleared: "handleFaceDetection 1700000007000 one_face
        (fst (run_ticks (sampled 1700000000000 (replicate 7 looking_away))
           (initial_stats 1699999990000))) =
       (\<lparr>currentFaces = 1, isLookingAway_s = False, confidence_s = 0.8,
         lastFaceTime = 1700000007000, lookAwayStartTime = None\<rparr>, [])"
    by (simp add: one_face_tick)
  from h1 h2 h3' h4 run count cleared show ?thesis
    by (intro conjI)
qed

end
